theory Spec2Isabelle
  imports Complex_Main
begin


section \<open>JavaScript strings\<close>

text \<open>
  Strings are lists of 8-bit characters: the model covers ASCII text. On such text
  \<open>toLowerCase\<close> maps \<open>A-Z\<close> to \<open>a-z\<close>, the white space of \<open>trim\<close> and of the
  regular expression class \<open>\s\<close> is tab, line feed, vertical tab, form feed, carriage
  return and space, and \<open>\w\<close> is \<open>[A-Za-z0-9_]\<close>.
\<close>

definition code_of :: "char \<Rightarrow> nat" where
  "code_of c = of_char c"

definition is_upper :: "char \<Rightarrow> bool" where
  "is_upper c = (65 \<le> code_of c \<and> code_of c \<le> 90)"

definition is_lower :: "char \<Rightarrow> bool" where
  "is_lower c = (97 \<le> code_of c \<and> code_of c \<le> 122)"

definition is_digit :: "char \<Rightarrow> bool" where
  "is_digit c = (48 \<le> code_of c \<and> code_of c \<le> 57)"

definition lower_char :: "char \<Rightarrow> char" where
  "lower_char c = (if is_upper c then char_of (code_of c + 32) else c)"

definition upper_char :: "char \<Rightarrow> char" where
  "upper_char c = (if is_lower c then char_of (code_of c - 32) else c)"

definition toLowerCase :: "string \<Rightarrow> string" where
  "toLowerCase s = map lower_char s"

definition is_space :: "char \<Rightarrow> bool" where
  "is_space c = (code_of c = 32 \<or> (9 \<le> code_of c \<and> code_of c \<le> 13))"

definition is_word :: "char \<Rightarrow> bool" where
  "is_word c = (is_upper c \<or> is_lower c \<or> is_digit c \<or> c = CHR ''_'')"

definition trim :: "string \<Rightarrow> string" where
  "trim s = rev (dropWhile is_space (rev (dropWhile is_space s)))"

text \<open>\<open>s.includes(sub)\<close>: \<open>sub\<close> occurs in \<open>s\<close> as a contiguous substring.\<close>

fun str_includes :: "string \<Rightarrow> string \<Rightarrow> bool" where
  "str_includes [] sub = (sub = [])"
| "str_includes (c # cs) sub = (take (length sub) (c # cs) = sub \<or> str_includes cs sub)"

section \<open>Regular expressions\<close>

text \<open>
  The regular expressions of the sources use literals, character classes, bounded and
  unbounded repetition of one class (greedy or lazy), one capture group, the anchors
  \<open>^\<close> and \<open>$\<close>, top-level alternation and the flags \<open>i\<close>, \<open>m\<close> and \<open>g\<close>. The matcher
  below is the backtracking matcher of the language restricted to that fragment: it
  tries start positions from the left, alternatives in order, and the counts of a
  repetition from the largest down (greedy) or from the smallest up (lazy).
\<close>

datatype citem = Ch char | Range char char | Space | Word

datatype cclass = Pos "citem list" | Neg "citem list"

datatype atom =
    Rep cclass nat "nat option" bool
  | GOpen
  | GClose
  | Bol
  | Eol

type_synonym regex = "atom list list"

text \<open>
  The state of a match attempt: the position, the character before it (none at the
  start of the text), the text from the position on, where the capture group was opened,
  and the span of the group once it is closed.
\<close>

record mstate =
  pos :: nat
  prevc :: "char option"
  ahead :: string
  gstart :: nat
  grp :: "(nat \<times> nat) option"

definition in_range :: "char \<Rightarrow> char \<Rightarrow> char \<Rightarrow> bool" where
  "in_range a b c = (code_of a \<le> code_of c \<and> code_of c \<le> code_of b)"

fun item_ok :: "bool \<Rightarrow> citem \<Rightarrow> char \<Rightarrow> bool" where
  "item_ok ci (Ch d) c = (if ci then lower_char c = lower_char d else c = d)"
| "item_ok ci (Range a b) c =
     (if ci then in_range a b (lower_char c) \<or> in_range a b (upper_char c)
      else in_range a b c)"
| "item_ok ci Space c = is_space c"
| "item_ok ci Word c = is_word c"

fun cls_ok :: "bool \<Rightarrow> cclass \<Rightarrow> char \<Rightarrow> bool" where
  "cls_ok ci (Pos its) c = list_ex (\<lambda>it. item_ok ci it c) its"
| "cls_ok ci (Neg its) c = (\<not> list_ex (\<lambda>it. item_ok ci it c) its)"

definition is_line_terminator :: "char \<Rightarrow> bool" where
  "is_line_terminator c = (c = CHR 0x0A \<or> c = CHR 0x0D)"

definition at_bol :: "bool \<Rightarrow> char option \<Rightarrow> bool" where
  "at_bol ml pv = (case pv of None \<Rightarrow> True | Some c \<Rightarrow> ml \<and> is_line_terminator c)"

definition at_eol :: "bool \<Rightarrow> string \<Rightarrow> bool" where
  "at_eol ml r = (case r of [] \<Rightarrow> True | c # cs \<Rightarrow> ml \<and> is_line_terminator c)"

definition below :: "nat option \<Rightarrow> nat \<Rightarrow> bool" where
  "below hi k = (case hi of None \<Rightarrow> True | Some h \<Rightarrow> k < h)"

text \<open>
  The places a repetition of a class can stop at, from the fewest characters to the
  most: after \<open>k\<close> characters for every \<open>k\<close> from \<open>lo\<close> on, as long as the characters
  are in the class and the upper bound allows one more.
\<close>

fun advance ::
  "bool \<Rightarrow> cclass \<Rightarrow> nat \<Rightarrow> nat option \<Rightarrow> nat \<Rightarrow> nat \<Rightarrow> char option \<Rightarrow> string \<Rightarrow>
   (nat \<times> char option \<times> string) list" where
  "advance ci cls lo hi k p pv [] = (if lo \<le> k then [(p, pv, [])] else [])"
| "advance ci cls lo hi k p pv (c # cs) =
     (if lo \<le> k then [(p, pv, c # cs)] else [])
     @ (if below hi k \<and> cls_ok ci cls c then advance ci cls lo hi (Suc k) (Suc p) (Some c) cs
        else [])"

text \<open>
  \<open>m_atoms\<close> matches a sequence of atoms from a state; \<open>m_try\<close> tries the places a
  repetition can stop at, in order, and keeps the first from which the atoms after it
  match.
\<close>

fun m_atoms :: "bool \<Rightarrow> bool \<Rightarrow> atom list \<Rightarrow> mstate \<Rightarrow> mstate option"
  and m_try :: "bool \<Rightarrow> bool \<Rightarrow> atom list \<Rightarrow> mstate \<Rightarrow> (nat \<times> char option \<times> string) list \<Rightarrow> mstate option"
where
  "m_atoms ci ml [] st = Some st"
| "m_atoms ci ml (Rep cls lo hi greedy # as) st =
     m_try ci ml as st
       (if greedy then rev (advance ci cls lo hi 0 (pos st) (prevc st) (ahead st))
        else advance ci cls lo hi 0 (pos st) (prevc st) (ahead st))"
| "m_atoms ci ml (GOpen # as) st = m_atoms ci ml as (st\<lparr>gstart := pos st\<rparr>)"
| "m_atoms ci ml (GClose # as) st = m_atoms ci ml as (st\<lparr>grp := Some (gstart st, pos st)\<rparr>)"
| "m_atoms ci ml (Bol # as) st = (if at_bol ml (prevc st) then m_atoms ci ml as st else None)"
| "m_atoms ci ml (Eol # as) st = (if at_eol ml (ahead st) then m_atoms ci ml as st else None)"
| "m_try ci ml as st [] = None"
| "m_try ci ml as st (cand # cands) =
     (case m_atoms ci ml as (st\<lparr>pos := fst cand, prevc := fst (snd cand), ahead := snd (snd cand)\<rparr>) of
        Some st' \<Rightarrow> Some st'
      | None \<Rightarrow> m_try ci ml as st cands)"

text \<open>The alternatives of a pattern, in order, at one start position.\<close>

fun m_alts :: "bool \<Rightarrow> bool \<Rightarrow> regex \<Rightarrow> mstate \<Rightarrow> mstate option" where
  "m_alts ci ml [] st = None"
| "m_alts ci ml (alt # alts) st =
     (case m_atoms ci ml alt st of Some st' \<Rightarrow> Some st' | None \<Rightarrow> m_alts ci ml alts st)"

definition start_state :: "nat \<Rightarrow> char option \<Rightarrow> string \<Rightarrow> mstate" where
  "start_state p pv r = \<lparr>pos = p, prevc = pv, ahead = r, gstart = p, grp = None\<rparr>"

text \<open>The leftmost start position with a match: the position and the final state.\<close>

fun search :: "bool \<Rightarrow> bool \<Rightarrow> regex \<Rightarrow> nat \<Rightarrow> char option \<Rightarrow> string \<Rightarrow> (nat \<times> mstate) option" where
  "search ci ml rx p pv [] =
     (case m_alts ci ml rx (start_state p pv []) of Some st \<Rightarrow> Some (p, st) | None \<Rightarrow> None)"
| "search ci ml rx p pv (c # cs) =
     (case m_alts ci ml rx (start_state p pv (c # cs)) of
        Some st \<Rightarrow> Some (p, st)
      | None \<Rightarrow> search ci ml rx (Suc p) (Some c) cs)"

text \<open>
  \<open>txt.match(re)\<close> for a regular expression without the \<open>g\<close> flag: the leftmost match,
  as the matched text and the text of group 1 (\<open>None\<close> when the group took no part,
  \<open>undefined\<close> in the source).
\<close>

definition substr :: "string \<Rightarrow> nat \<Rightarrow> nat \<Rightarrow> string" where
  "substr txt s e = take (e - s) (drop s txt)"

definition re_match :: "bool \<Rightarrow> bool \<Rightarrow> regex \<Rightarrow> string \<Rightarrow> (string \<times> string option) option" where
  "re_match ci ml rx txt =
     (case search ci ml rx 0 None txt of
        None \<Rightarrow> None
      | Some found \<Rightarrow>
          Some (substr txt (fst found) (pos (snd found)),
                (case grp (snd found) of
                   None \<Rightarrow> None
                 | Some g \<Rightarrow> Some (substr txt (fst g) (snd g)))))"

text \<open>
  \<open>txt.replace(re, sub)\<close> for a regular expression with the \<open>g\<close> flag and a replacement
  without \<open>$\<close> patterns: every match, found from the left past the end of the one before
  it, is replaced. \<open>skip\<close> is the end of the last match; after an empty match the
  character at the position is copied and the search moves on by one.
\<close>

fun replace_from ::
  "bool \<Rightarrow> bool \<Rightarrow> regex \<Rightarrow> string \<Rightarrow> nat \<Rightarrow> char option \<Rightarrow> string \<Rightarrow> nat \<Rightarrow> string" where
  "replace_from ci ml rx sub p pv [] skip =
     (if p < skip then []
      else (case m_alts ci ml rx (start_state p pv []) of Some st \<Rightarrow> sub | None \<Rightarrow> []))"
| "replace_from ci ml rx sub p pv (c # cs) skip =
     (if p < skip then replace_from ci ml rx sub (Suc p) (Some c) cs skip
      else (case m_alts ci ml rx (start_state p pv (c # cs)) of
              Some st \<Rightarrow>
                (if pos st = p then sub @ c # replace_from ci ml rx sub (Suc p) (Some c) cs skip
                 else sub @ replace_from ci ml rx sub (Suc p) (Some c) cs (pos st))
            | None \<Rightarrow> c # replace_from ci ml rx sub (Suc p) (Some c) cs skip))"

definition replace_all :: "bool \<Rightarrow> bool \<Rightarrow> regex \<Rightarrow> string \<Rightarrow> string \<Rightarrow> string" where
  "replace_all ci ml rx sub txt = replace_from ci ml rx sub 0 None txt 0"

text \<open>Abbreviations for writing the patterns of the sources.\<close>

definition lit :: "string \<Rightarrow> atom list" where
  "lit s = map (\<lambda>c. Rep (Pos [Ch c]) 1 (Some 1) True) s"

definition one :: "cclass \<Rightarrow> atom" where
  "one cls = Rep cls 1 (Some 1) True"

definition opt :: "cclass \<Rightarrow> atom" where
  "opt cls = Rep cls 0 (Some 1) True"

definition star :: "cclass \<Rightarrow> atom" where
  "star cls = Rep cls 0 None True"

definition plus :: "cclass \<Rightarrow> atom" where
  "plus cls = Rep cls 1 None True"

definition lazy_star :: "cclass \<Rightarrow> atom" where
  "lazy_star cls = Rep cls 0 None False"

section \<open>Slugs (utils/metadata)\<close>

text \<open>
  \<^verbatim>\<open>title.toLowerCase().trim().replace(/[^\w\s-]/g, '')
        .replace(/[\s_-]+/g, '-').replace(/^-+|-+$/g, '')\<close>
\<close>

definition generateSlug :: "string \<Rightarrow> string" where
  "generateSlug title =
     replace_all False False [[Bol, plus (Pos [Ch CHR ''-''])], [plus (Pos [Ch CHR ''-'']), Eol]] ''''
       (replace_all False False [[plus (Pos [Space, Ch CHR ''_'', Ch CHR ''-''])]] ''-''
          (replace_all False False [[one (Neg [Word, Space, Ch CHR ''-''])]] ''''
             (trim (toLowerCase title))))"

text \<open>
  \<^verbatim>\<open>truncateText\<close>, \<^verbatim>\<open>generateMetaTitle\<close>: a title longer than \<open>60 - suffix.length\<close>
  characters is cut to three less, trimmed, and gets an ellipsis.
\<close>

definition truncateText :: "string \<Rightarrow> nat \<Rightarrow> string" where
  "truncateText txt maxLength =
     (if length txt \<le> maxLength then txt else trim (take (maxLength - 3) txt) @ ''...'')"

definition generateMetaTitle :: "string \<Rightarrow> string" where
  "generateMetaTitle title =
     (let suffix = '' | Pretty'' @ [CHR 0x27] @ ''s Perspectives'';
          maxTitleLength = 60 - length suffix
      in truncateText title maxTitleLength @ suffix)"

section \<open>JavaScript values, exceptions and JSON\<close>

text \<open>
  The input of a tool call is a JSON object whose values the sources read without any
  check (\<^verbatim>\<open>input.title as string\<close> is a cast of the type checker only), so the model
  keeps them as values of any JSON type; reading an absent property gives
  \<open>JUndefined\<close>. Numbers are integers.
\<close>

datatype jsval =
    JUndefined
  | JNull
  | JBool bool
  | JNum int
  | JStr string
  | JArr "jsval list"
  | JObj "(string \<times> jsval) list"

text \<open>
  A thrown value is an \<open>Error\<close> object with its message, or anything else
  (\<^verbatim>\<open>error instanceof Error ? error.message : 'Unknown error'\<close>).
\<close>

datatype exn = JsError string | JsOther

fun truthy :: "jsval \<Rightarrow> bool" where
  "truthy JUndefined = False"
| "truthy JNull = False"
| "truthy (JBool b) = b"
| "truthy (JNum n) = (n \<noteq> 0)"
| "truthy (JStr s) = (s \<noteq> [])"
| "truthy (JArr xs) = True"
| "truthy (JObj kvs) = True"

text \<open>
  Calling a string method on a value: a string has it, on any other JSON value the call
  throws a \<open>TypeError\<close> (the message is the one of V8).
\<close>

definition string_method :: "string \<Rightarrow> string \<Rightarrow> jsval \<Rightarrow> exn + string" where
  "string_method expr meth v =
     (case v of
        JStr s \<Rightarrow> Inr s
      | JUndefined \<Rightarrow> Inl (JsError (''Cannot read properties of undefined (reading '' @ [CHR 0x27] @ meth @ [CHR 0x27] @ '')''))
      | JNull \<Rightarrow> Inl (JsError (''Cannot read properties of null (reading '' @ [CHR 0x27] @ meth @ [CHR 0x27] @ '')''))
      | _ \<Rightarrow> Inl (JsError (expr @ ''.'' @ meth @ '' is not a function'')))"

definition digit_char :: "nat \<Rightarrow> char" where
  "digit_char n = char_of (48 + n)"

fun show_nat :: "nat \<Rightarrow> string" where
  "show_nat n = (if n < 10 then [digit_char n] else show_nat (n div 10) @ [digit_char (n mod 10)])"

declare show_nat.simps [simp del]

definition show_int :: "int \<Rightarrow> string" where
  "show_int i = (if i < 0 then ''-'' @ show_nat (nat (- i)) else show_nat (nat i))"

definition hex_char :: "nat \<Rightarrow> char" where
  "hex_char n = (if n < 10 then char_of (48 + n) else char_of (87 + n))"

text \<open>\<open>QuoteJSONString\<close> of \<open>JSON.stringify\<close>.\<close>

definition json_escape_char :: "char \<Rightarrow> string" where
  "json_escape_char c =
     (if c = CHR 0x22 then [CHR 0x5C, CHR 0x22]
      else if c = CHR 0x5C then [CHR 0x5C, CHR 0x5C]
      else if c = CHR 0x08 then [CHR 0x5C, CHR ''b'']
      else if c = CHR 0x0C then [CHR 0x5C, CHR ''f'']
      else if c = CHR 0x0A then [CHR 0x5C, CHR ''n'']
      else if c = CHR 0x0D then [CHR 0x5C, CHR ''r'']
      else if c = CHR 0x09 then [CHR 0x5C, CHR ''t'']
      else if code_of c < 32
        then [CHR 0x5C, CHR ''u'', CHR ''0'', CHR ''0'', hex_char (code_of c div 16), hex_char (code_of c mod 16)]
      else [c])"

definition json_quote :: "string \<Rightarrow> string" where
  "json_quote s = [CHR 0x22] @ concat (map json_escape_char s) @ [CHR 0x22]"

fun join :: "string \<Rightarrow> string list \<Rightarrow> string" where
  "join sep [] = []"
| "join sep [x] = x"
| "join sep (x # y # ys) = x @ sep @ join sep (y # ys)"

definition json_wrap :: "nat \<Rightarrow> nat \<Rightarrow> string \<Rightarrow> string \<Rightarrow> string list \<Rightarrow> string" where
  "json_wrap gap ind opn cls parts =
     (if parts = [] then opn @ cls
      else if gap = 0 then opn @ join '','' parts @ cls
      else opn @ [CHR 0x0A] @ replicate (ind + gap) CHR '' ''
           @ join ('','' @ [CHR 0x0A] @ replicate (ind + gap) CHR '' '') parts
           @ [CHR 0x0A] @ replicate ind CHR '' '' @ cls)"

text \<open>
  \<open>JSON.stringify(v, null, gap)\<close> at the indentation \<open>ind\<close>: \<open>None\<close> is the result
  \<open>undefined\<close>. A property whose value is \<open>undefined\<close> is left out of an object and is
  \<open>null\<close> in an array.
\<close>

fun stringify :: "nat \<Rightarrow> nat \<Rightarrow> jsval \<Rightarrow> string option" where
  "stringify gap ind JUndefined = None"
| "stringify gap ind JNull = Some ''null''"
| "stringify gap ind (JBool b) = Some (if b then ''true'' else ''false'')"
| "stringify gap ind (JNum n) = Some (show_int n)"
| "stringify gap ind (JStr s) = Some (json_quote s)"
| "stringify gap ind (JArr xs) =
     Some (json_wrap gap ind ''['' '']''
       (map (\<lambda>x. case stringify gap (ind + gap) x of None \<Rightarrow> ''null'' | Some t \<Rightarrow> t) xs))"
| "stringify gap ind (JObj kvs) =
     Some (json_wrap gap ind ''{'' ''}''
       (concat (map (\<lambda>kv. case stringify gap (ind + gap) (snd kv) of
                              None \<Rightarrow> []
                            | Some t \<Rightarrow> [json_quote (fst kv) @ '':'' @ (if gap = 0 then [] else '' '') @ t])
                    kvs)))"

text \<open>\<open>JSON.stringify\<close> of an object or an array, which is always a string.\<close>

definition JSON_stringify :: "nat \<Rightarrow> jsval \<Rightarrow> string" where
  "JSON_stringify gap v = (case stringify gap 0 v of None \<Rightarrow> [] | Some t \<Rightarrow> t)"

definition opt_str :: "string option \<Rightarrow> jsval" where
  "opt_str v = (case v of None \<Rightarrow> JUndefined | Some s \<Rightarrow> JStr s)"

section \<open>The publishing store (services/ghost)\<close>

record ExistingArticle =
  ea_id :: string
  ea_title :: string
  ea_slug :: string
  ea_publishedAt :: jsval

datatype ArticleStatus = Draft | Published

text \<open>
  \<open>Article\<close>: the title and the slug are strings wherever a caller builds one; the
  optional fields hold whatever the caller put there.
\<close>

record Article =
  a_title :: string
  a_slug :: string
  a_html :: jsval
  a_excerpt :: jsval
  a_tags :: jsval
  a_metaTitle :: jsval
  a_metaDescription :: jsval
  a_featureImage :: jsval
  a_status :: ArticleStatus

text \<open>The object handed to \<open>posts.add\<close>; an optional key that was not set is \<open>None\<close>.\<close>

record PostData =
  pd_title :: string
  pd_slug :: string
  pd_html :: jsval
  pd_status :: string
  pd_custom_excerpt :: "jsval option"
  pd_meta_title :: "jsval option"
  pd_meta_description :: "jsval option"
  pd_feature_image :: "jsval option"
  pd_tags :: "jsval list option"

record Post =
  post_id :: string
  post_url :: string

text \<open>
  The client of the content-management system, a collaborator: \<open>browse_all\<close> is what
  the paginated \<open>posts.browse\<close> loop of \<open>getExistingArticles\<close> collects (or the error it
  rethrows), \<open>posts_add\<close> the outcome of \<open>posts.add\<close> on a payload.
\<close>

record GhostClient =
  browse_all :: "exn + ExistingArticle list"
  posts_add :: "PostData \<Rightarrow> exn + Post"

definition getExistingArticles :: "GhostClient option \<Rightarrow> exn + ExistingArticle list" where
  "getExistingArticles ghostClient =
     (case ghostClient of
        None \<Rightarrow> Inl (JsError ''Ghost client not initialized'')
      | Some g \<Rightarrow> browse_all g)"

record DuplicateCheckResult =
  exactMatch :: bool
  similarArticles :: "ExistingArticle list"

text \<open>The body of \<open>checkArticleExists\<close> once the articles are there.\<close>

definition checkArticles :: "ExistingArticle list \<Rightarrow> string \<Rightarrow> DuplicateCheckResult" where
  "checkArticles articles title =
     (let slug = generateSlug title;
          lowerTitle = toLowerCase title
      in \<lparr>exactMatch =
            list_ex (\<lambda>article. ea_slug article = slug \<or> toLowerCase (ea_title article) = lowerTitle)
              articles,
          similarArticles =
            filter (\<lambda>article. str_includes (toLowerCase (ea_title article)) lowerTitle
                              \<or> str_includes lowerTitle (toLowerCase (ea_title article)))
              articles\<rparr>)"

text \<open>
  \<open>checkArticleExists\<close>: the articles are fetched first; \<open>generateSlug\<close> then calls
  \<open>toLowerCase\<close> on the title, which throws when a caller passed something that is not
  a string.
\<close>

definition checkArticleExists :: "GhostClient option \<Rightarrow> jsval \<Rightarrow> exn + DuplicateCheckResult" where
  "checkArticleExists ghostClient title =
     (case getExistingArticles ghostClient of
        Inl e \<Rightarrow> Inl e
      | Inr articles \<Rightarrow>
          (case string_method ''title'' ''toLowerCase'' title of
             Inl e \<Rightarrow> Inl e
           | Inr t \<Rightarrow> Inr (checkArticles articles t)))"

text \<open>
  \<open>article.tags && article.tags.length > 0\<close> and \<open>article.tags.map(...)\<close>: a non-empty
  array gives the list of \<open>{name: tag}\<close> objects; a non-empty string has a positive length
  and no \<open>map\<close>; an object has the length its \<open>length\<close> property says (\<open>toNumber\<close> is the
  conversion of the language to a number, a parameter of the model, for a value that is
  not a number) and no \<open>map\<close>; any other value sets no tags.
\<close>

definition gt_zero :: "(jsval \<Rightarrow> int) \<Rightarrow> jsval \<Rightarrow> bool" where
  "gt_zero toNumber v =
     (case v of JUndefined \<Rightarrow> False | JNum n \<Rightarrow> 0 < n | _ \<Rightarrow> 0 < toNumber v)"

definition prop_of :: "(string \<times> jsval) list \<Rightarrow> string \<Rightarrow> jsval" where
  "prop_of kvs k = (case map_of kvs k of None \<Rightarrow> JUndefined | Some v \<Rightarrow> v)"

definition not_a_function :: "string \<Rightarrow> exn" where
  "not_a_function expr = JsError (expr @ '' is not a function'')"

definition post_tags :: "(jsval \<Rightarrow> int) \<Rightarrow> jsval \<Rightarrow> exn + jsval list option" where
  "post_tags toNumber tags =
     (case tags of
        JArr ts \<Rightarrow> Inr (if ts = [] then None else Some (map (\<lambda>tag. JObj [(''name'', tag)]) ts))
      | JStr s \<Rightarrow> (if s = [] then Inr None else Inl (not_a_function ''article.tags.map''))
      | JObj kvs \<Rightarrow>
          (if gt_zero toNumber (prop_of kvs ''length'')
           then Inl (not_a_function ''article.tags.map'') else Inr None)
      | _ \<Rightarrow> Inr None)"

definition if_truthy :: "jsval \<Rightarrow> jsval option" where
  "if_truthy v = (if truthy v then Some v else None)"

definition postData :: "(jsval \<Rightarrow> int) \<Rightarrow> Article \<Rightarrow> exn + PostData" where
  "postData toNumber article =
     (case post_tags toNumber (a_tags article) of
        Inl e \<Rightarrow> Inl e
      | Inr tags \<Rightarrow>
          Inr \<lparr>pd_title = a_title article,
               pd_slug = (if a_slug article \<noteq> [] then a_slug article else generateSlug (a_title article)),
               pd_html = a_html article,
               pd_status = ''draft'',
               pd_custom_excerpt = if_truthy (a_excerpt article),
               pd_meta_title = if_truthy (a_metaTitle article),
               pd_meta_description = if_truthy (a_metaDescription article),
               pd_feature_image = if_truthy (a_featureImage article),
               pd_tags = tags\<rparr>)"

record DraftRef =
  dr_id :: string
  dr_url :: string

text \<open>
  \<open>createDraftArticle\<close>: the outcome, and beside it the payloads that were handed to
  \<open>posts.add\<close>, which is all the store ever receives from the program.
\<close>

definition createDraftArticle ::
  "(jsval \<Rightarrow> int) \<Rightarrow> GhostClient option \<Rightarrow> Article \<Rightarrow> (exn + DraftRef) \<times> PostData list" where
  "createDraftArticle toNumber ghostClient article =
     (case ghostClient of
        None \<Rightarrow> (Inl (JsError ''Ghost client not initialized''), [])
      | Some g \<Rightarrow>
          (case postData toNumber article of
             Inl e \<Rightarrow> (Inl e, [])
           | Inr pd \<Rightarrow>
               (case posts_add g pd of
                  Inl e \<Rightarrow> (Inl e, [pd])
                | Inr post \<Rightarrow> (Inr \<lparr>dr_id = post_id post, dr_url = post_url post\<rparr>, [pd]))))"

text \<open>
  \<open>searchExistingArticles\<close>: the articles are fetched first, then the query is
  lower-cased, which throws when it is not a string.
\<close>

definition searchExistingArticles :: "GhostClient option \<Rightarrow> jsval \<Rightarrow> exn + ExistingArticle list" where
  "searchExistingArticles ghostClient query =
     (case getExistingArticles ghostClient of
        Inl e \<Rightarrow> Inl e
      | Inr articles \<Rightarrow>
          (case string_method ''query'' ''toLowerCase'' query of
             Inl e \<Rightarrow> Inl e
           | Inr q \<Rightarrow>
               (let lowerQuery = toLowerCase q in
                Inr (filter
                  (\<lambda>article. str_includes (toLowerCase (ea_title article)) lowerQuery
                            \<or> str_includes (ea_slug article)
                                 (replace_all False False [[plus (Pos [Space])]] ''-'' lowerQuery))
                  articles))))"

section \<open>The tool executor (strands-agent/agent)\<close>

text \<open>
  The tool catalogue \<open>tools\<close>: the name of each tool, the properties its input schema
  declares and those it requires (descriptions and types left out).
\<close>

record ToolSpec =
  ts_name :: string
  ts_properties :: "string list"
  ts_required :: "string list"

definition tools :: "ToolSpec list" where
  "tools =
     [\<lparr>ts_name = ''list_interviews'', ts_properties = [], ts_required = []\<rparr>,
      \<lparr>ts_name = ''read_interview'', ts_properties = [''documentId''], ts_required = [''documentId'']\<rparr>,
      \<lparr>ts_name = ''list_articles'', ts_properties = [''limit''], ts_required = []\<rparr>,
      \<lparr>ts_name = ''search_articles'', ts_properties = [''query''], ts_required = [''query'']\<rparr>,
      \<lparr>ts_name = ''check_duplicate'', ts_properties = [''title''], ts_required = [''title'']\<rparr>,
      \<lparr>ts_name = ''create_draft'',
       ts_properties = [''title'', ''html'', ''excerpt'', ''metaDescription'', ''tags''],
       ts_required = [''title'', ''html'']\<rparr>,
      \<lparr>ts_name = ''web_search'', ts_properties = [''query'', ''maxResults''], ts_required = [''query'']\<rparr>,
      \<lparr>ts_name = ''research_topic'', ts_properties = [''topic''], ts_required = [''topic'']\<rparr>,
      \<lparr>ts_name = ''list_ideas'', ts_properties = [], ts_required = []\<rparr>,
      \<lparr>ts_name = ''read_idea'', ts_properties = [''documentId''], ts_required = [''documentId'']\<rparr>]"

record Interview =
  iv_id :: string
  iv_title :: string
  iv_content :: string
  iv_vendorName :: "string option"
  iv_vendorType :: "string option"
  iv_createdAt :: "string option"

record ArticleIdea =
  idea_id :: string
  idea_title :: string
  idea_content :: string
  idea_createdAt :: "string option"

text \<open>
  The collaborators of the executor, each with the outcome of a call: a result or the
  exception it throws. \<open>iv_createdAt\<close> and \<open>idea_createdAt\<close> hold what
  \<open>toLocaleDateString()\<close> gives for the date, when there is one. \<open>envIdeasFolderId\<close> is
  the environment variable \<open>GOOGLE_IDEAS_FOLDER_ID\<close>.
\<close>

record Env =
  listInterviews :: "string \<Rightarrow> exn + Interview list"
  getInterview :: "jsval \<Rightarrow> exn + Interview"
  listArticleIdeas :: "string \<Rightarrow> exn + ArticleIdea list"
  getIdea :: "jsval \<Rightarrow> exn + ArticleIdea"
  ghostClient :: "GhostClient option"
  searchWeb :: "jsval \<Rightarrow> jsval \<Rightarrow> exn + jsval list"
  researchTopic :: "jsval \<Rightarrow> exn + string"
  envIdeasFolderId :: "string option"
  toNumber :: "jsval \<Rightarrow> int"

type_synonym tool_input = "string \<rightharpoonup> jsval"

definition field :: "tool_input \<Rightarrow> string \<Rightarrow> jsval" where
  "field input k = (case input k of None \<Rightarrow> JUndefined | Some v \<Rightarrow> v)"

definition or_default :: "jsval \<Rightarrow> int \<Rightarrow> jsval" where
  "or_default v d = (if truthy v then v else JNum d)"

text \<open>\<open>xs.slice(0, n)\<close>: a negative end counts from the end of the array.\<close>

definition slice_to :: "(jsval \<Rightarrow> int) \<Rightarrow> 'a list \<Rightarrow> jsval \<Rightarrow> 'a list" where
  "slice_to toNum xs v =
     (let n = (case v of JNum k \<Rightarrow> k | JUndefined \<Rightarrow> int (length xs) | _ \<Rightarrow> toNum v)
      in if n < 0 then take (nat (int (length xs) + n)) xs else take (nat n) xs)"

definition article_json :: "ExistingArticle \<Rightarrow> jsval" where
  "article_json a =
     JObj [(''title'', JStr (ea_title a)), (''slug'', JStr (ea_slug a)),
           (''publishedAt'', ea_publishedAt a)]"

definition interview_row :: "Interview \<Rightarrow> jsval" where
  "interview_row i =
     JObj [(''id'', JStr (iv_id i)), (''title'', JStr (iv_title i)),
           (''vendorName'', opt_str (iv_vendorName i)),
           (''vendorType'', opt_str (iv_vendorType i)),
           (''createdAt'', opt_str (iv_createdAt i))]"

definition interview_json :: "Interview \<Rightarrow> jsval" where
  "interview_json i =
     JObj [(''id'', JStr (iv_id i)), (''title'', JStr (iv_title i)),
           (''vendorName'', opt_str (iv_vendorName i)),
           (''vendorType'', opt_str (iv_vendorType i)),
           (''content'', JStr (iv_content i))]"

definition idea_row :: "ArticleIdea \<Rightarrow> jsval" where
  "idea_row i =
     JObj [(''id'', JStr (idea_id i)), (''title'', JStr (idea_title i)),
           (''createdAt'', opt_str (idea_createdAt i))]"

definition idea_json :: "ArticleIdea \<Rightarrow> jsval" where
  "idea_json i =
     JObj [(''id'', JStr (idea_id i)), (''title'', JStr (idea_title i)),
           (''content'', JStr (idea_content i))]"

text \<open>
  The article that the case \<open>create_draft\<close> builds: \<open>generateSlug(input.title)\<close> comes
  first and throws unless the title is a string.
\<close>

definition create_draft_article :: "tool_input \<Rightarrow> exn + Article" where
  "create_draft_article input =
     (case string_method ''title'' ''toLowerCase'' (field input ''title'') of
        Inl e \<Rightarrow> Inl e
      | Inr title \<Rightarrow>
          Inr \<lparr>a_title = title,
               a_slug = generateSlug title,
               a_html = field input ''html'',
               a_excerpt = field input ''excerpt'',
               a_tags = field input ''tags'',
               a_metaTitle = JStr (generateMetaTitle title),
               a_metaDescription = field input ''metaDescription'',
               a_featureImage = JUndefined,
               a_status = Draft\<rparr>)"

text \<open>
  The case \<open>create_draft\<close> of \<open>executeTool\<close>, with the payloads that reached
  \<open>posts.add\<close> beside the outcome.
\<close>

definition create_draft_tool :: "Env \<Rightarrow> tool_input \<Rightarrow> (exn + string) \<times> PostData list" where
  "create_draft_tool env input =
     (case create_draft_article input of
        Inl e \<Rightarrow> (Inl e, [])
      | Inr article \<Rightarrow>
          (case createDraftArticle (toNumber env) (ghostClient env) article of
             (Inl e, posted) \<Rightarrow> (Inl e, posted)
           | (Inr r, posted) \<Rightarrow>
               (Inr (JSON_stringify 2
                  (JObj [(''success'', JBool True), (''id'', JStr (dr_id r)),
                         (''url'', JStr (dr_url r)),
                         (''message'', JStr (''Draft created: '' @ [CHR 0x22] @ a_title article @ [CHR 0x22]))])),
                posted)))"

definition executeTool :: "Env \<Rightarrow> string \<Rightarrow> tool_input \<Rightarrow> string \<Rightarrow> string option \<Rightarrow> exn + string" where
  "executeTool env name input folderId ideasFolderId =
     (if name = ''list_interviews'' then
        (case listInterviews env folderId of
           Inl e \<Rightarrow> Inl e
         | Inr interviews \<Rightarrow> Inr (JSON_stringify 2 (JArr (map interview_row interviews))))
      else if name = ''read_interview'' then
        (case getInterview env (field input ''documentId'') of
           Inl e \<Rightarrow> Inl e
         | Inr interview \<Rightarrow> Inr (JSON_stringify 2 (interview_json interview)))
      else if name = ''list_articles'' then
        (case getExistingArticles (ghostClient env) of
           Inl e \<Rightarrow> Inl e
         | Inr articles \<Rightarrow>
             (let limit = or_default (field input ''limit'') 20 in
              Inr (JSON_stringify 2
                (JArr (map article_json (slice_to (toNumber env) articles limit))))))
      else if name = ''search_articles'' then
        (case searchExistingArticles (ghostClient env) (field input ''query'') of
           Inl e \<Rightarrow> Inl e
         | Inr articles \<Rightarrow> Inr (JSON_stringify 2 (JArr (map article_json articles))))
      else if name = ''check_duplicate'' then
        (case checkArticleExists (ghostClient env) (field input ''title'') of
           Inl e \<Rightarrow> Inl e
         | Inr check \<Rightarrow>
             Inr (JSON_stringify 2
               (JObj [(''exactMatch'', JBool (exactMatch check)),
                      (''similarArticles'',
                       JArr (map (\<lambda>a. JStr (ea_title a)) (take 5 (similarArticles check))))])))
      else if name = ''create_draft'' then fst (create_draft_tool env input)
      else if name = ''web_search'' then
        (case searchWeb env (field input ''query'') (or_default (field input ''maxResults'') 5) of
           Inl e \<Rightarrow> Inl e
         | Inr results \<Rightarrow> Inr (JSON_stringify 2 (JArr results)))
      else if name = ''research_topic'' then researchTopic env (field input ''topic'')
      else if name = ''list_ideas'' then
        (let effectiveIdeasFolderId =
               (case ideasFolderId of
                  Some f \<Rightarrow> (if f \<noteq> [] then Some f else envIdeasFolderId env)
                | None \<Rightarrow> envIdeasFolderId env)
         in case effectiveIdeasFolderId of
              None \<Rightarrow> Inr (JSON_stringify 0 (JObj [(''error'', JStr ''Ideas folder not configured'')]))
            | Some f \<Rightarrow>
                (if f = [] then Inr (JSON_stringify 0 (JObj [(''error'', JStr ''Ideas folder not configured'')]))
                 else (case listArticleIdeas env f of
                         Inl e \<Rightarrow> Inl e
                       | Inr ideas \<Rightarrow> Inr (JSON_stringify 2 (JArr (map idea_row ideas))))))
      else if name = ''read_idea'' then
        (case getIdea env (field input ''documentId'') of
           Inl e \<Rightarrow> Inl e
         | Inr idea \<Rightarrow> Inr (JSON_stringify 2 (idea_json idea)))
      else Inr (JSON_stringify 0 (JObj [(''error'', JStr (''Unknown tool: '' @ name))])))"

section \<open>The agent loop (strands-agent/agent)\<close>

datatype block =
    TextBlock string
  | ToolUseBlock string string tool_input
  | OtherBlock

text \<open>A tool result block; \<open>is_error\<close> is \<open>False\<close> where the source leaves the key out.\<close>

record ToolResult =
  tool_use_id :: string
  tr_content :: string
  is_error :: bool

datatype message =
    UserText string
  | AssistantTurn "block list"
  | UserToolResults "ToolResult list"

record Response =
  stop_reason :: string
  resp_content :: "block list"

text \<open>
  The language model, a collaborator: what \<open>client.messages.create\<close> answers to a
  conversation, or the exception it throws. The system prompt, the model name and the
  tool catalogue are the same in every call.
\<close>

type_synonym LLM = "message list \<Rightarrow> exn + Response"

definition error_text :: "exn \<Rightarrow> string" where
  "error_text e = ''Error: '' @ (case e of JsError m \<Rightarrow> m | JsOther \<Rightarrow> ''Unknown error'')"

text \<open>The body of the \<open>for\<close> loop over the blocks of a turn: what it pushes for a block.\<close>

fun tool_block :: "Env \<Rightarrow> string \<Rightarrow> string option \<Rightarrow> block \<Rightarrow> ToolResult list" where
  "tool_block env folderId ideasFolderId (ToolUseBlock bid name input) =
     (case executeTool env name input folderId ideasFolderId of
        Inr result \<Rightarrow> [\<lparr>tool_use_id = bid, tr_content = result, is_error = False\<rparr>]
      | Inl e \<Rightarrow> [\<lparr>tool_use_id = bid, tr_content = error_text e, is_error = True\<rparr>])"
| "tool_block env folderId ideasFolderId (TextBlock t) = []"
| "tool_block env folderId ideasFolderId OtherBlock = []"

fun run_tools :: "Env \<Rightarrow> string \<Rightarrow> string option \<Rightarrow> block list \<Rightarrow> ToolResult list \<Rightarrow> ToolResult list" where
  "run_tools env folderId ideasFolderId [] toolResults = toolResults"
| "run_tools env folderId ideasFolderId (b # bs) toolResults =
     run_tools env folderId ideasFolderId bs (toolResults @ tool_block env folderId ideasFolderId b)"

definition maxIterations :: nat where
  "maxIterations = 15"

text \<open>
  The state of the \<open>while\<close> loop: the counter, the conversation, the last response, and
  beside them the conversations sent to the model so far, in order (\<open>calls\<close>, kept for
  the proofs only).
\<close>

record LoopState =
  iterations :: nat
  messages :: "message list"
  response :: Response
  calls :: "message list list"

record RunResult =
  returned :: "exn + string"
  sent :: "message list list"

function agent_loop ::
  "Env \<Rightarrow> LLM \<Rightarrow> string \<Rightarrow> string option \<Rightarrow> LoopState \<Rightarrow> (exn + LoopState) \<times> message list list" where
  "agent_loop env llm folderId ideasFolderId st =
     (if stop_reason (response st) = ''tool_use'' \<and> iterations st < maxIterations then
        (let assistantContent = resp_content (response st);
             toolResults = run_tools env folderId ideasFolderId assistantContent [];
             msgs = messages st @ [AssistantTurn assistantContent, UserToolResults toolResults]
         in case llm msgs of
              Inl e \<Rightarrow> (Inl e, calls st @ [msgs])
            | Inr r \<Rightarrow>
                agent_loop env llm folderId ideasFolderId
                  \<lparr>iterations = Suc (iterations st), messages = msgs, response = r,
                   calls = calls st @ [msgs]\<rparr>)
      else (Inr st, calls st))"
  by pat_completeness auto
termination
  by (relation "measure (\<lambda>(env, llm, folderId, ideasFolderId, st). maxIterations - iterations st)") auto

declare agent_loop.simps [simp del]

fun block_text :: "block \<Rightarrow> string list" where
  "block_text (TextBlock t) = [t]"
| "block_text (ToolUseBlock bid name input) = []"
| "block_text OtherBlock = []"

definition final_text :: "Response \<Rightarrow> string" where
  "final_text r = join [CHR 0x0A] (concat (map block_text (resp_content r)))"

definition limit_note :: string where
  "limit_note = [CHR 0x0A, CHR 0x0A] @ ''(Note: Agent reached iteration limit)''"

definition runContentAgent :: "Env \<Rightarrow> LLM \<Rightarrow> string \<Rightarrow> string \<Rightarrow> string option \<Rightarrow> RunResult" where
  "runContentAgent env llm request folderId ideasFolderId =
     (let msgs = [UserText request] in
      case llm msgs of
        Inl e \<Rightarrow> \<lparr>returned = Inl e, sent = [msgs]\<rparr>
      | Inr r \<Rightarrow>
          (case agent_loop env llm folderId ideasFolderId
                  \<lparr>iterations = 0, messages = msgs, response = r, calls = [msgs]\<rparr> of
             (Inl e, cs) \<Rightarrow> \<lparr>returned = Inl e, sent = cs\<rparr>
           | (Inr st, cs) \<Rightarrow>
               (let finalResponse = final_text (response st) in
                \<lparr>returned = Inr (if maxIterations \<le> iterations st
                                  then finalResponse @ limit_note else finalResponse),
                 sent = cs\<rparr>)))"

section \<open>The scheduling duplicate heuristic (weekly scheduler)\<close>

definition keyTerms :: "string list" where
  "keyTerms =
     [''instagram'', ''tiktok'', ''social media'', ''marketing'', ''pricing'',
      ''client experience'', ''vendor relationships'', ''wedding photography'',
      ''wedding planner'', ''florist'', ''venue'', ''videography'', ''catering'',
      ''referrals'', ''booking'', ''leads'', ''seo'', ''email marketing'',
      ''portfolio'', ''branding'', ''networking'', ''collaboration'', ''trends'',
      ''gen z'', ''millennial'', ''ai tools'', ''automation'', ''systems'']"

definition extractKeyPhrases :: "string \<Rightarrow> string list" where
  "extractKeyPhrases txt = filter (\<lambda>term. str_includes txt term) keyTerms"

text \<open>
  \<open>s.split(/\s+/)\<close>: the pieces between the runs of white space, with an empty piece
  before a leading run and after a trailing one. \<open>cur\<close> is the piece being read,
  \<open>insep\<close> says that the character before was white space.
\<close>

fun split_go :: "string \<Rightarrow> string \<Rightarrow> bool \<Rightarrow> string list" where
  "split_go [] cur insep = [cur]"
| "split_go (c # cs) cur insep =
     (if is_space c then (if insep then split_go cs cur True else cur # split_go cs [] True)
      else split_go cs (cur @ [c]) False)"

definition split_ws :: "string \<Rightarrow> string list" where
  "split_ws s = split_go s [] False"

definition long_words :: "string \<Rightarrow> string list" where
  "long_words s = filter (\<lambda>w. 4 < length w) (split_ws s)"

text \<open>The key phrases of the topic that match a key phrase of the title.\<close>

definition matchingPhrases :: "string list \<Rightarrow> string list \<Rightarrow> string list" where
  "matchingPhrases topicKeyPhrases titleKeyPhrases =
     filter (\<lambda>phrase. list_ex (\<lambda>tp. tp = phrase \<or> str_includes tp phrase \<or> str_includes phrase tp)
                         titleKeyPhrases)
       topicKeyPhrases"

text \<open>
  \<open>topicWords.length > 0 && wordMatches / topicWords.length > 0.6\<close>. The quotient of
  two word counts is compared with \<open>0.6\<close> in the rationals; the floating-point
  comparison of the source gives the same answer for every count below \<open>2^50\<close>.
\<close>

definition word_overlap :: "string \<Rightarrow> string \<Rightarrow> bool" where
  "word_overlap topicLower titleLower =
     (let topicWords = long_words topicLower;
          titleWords = long_words titleLower;
          wordMatches = length (filter (\<lambda>w. w \<in> set titleWords) topicWords)
      in topicWords \<noteq> [] \<and> (6 :: rat) / 10 < of_nat wordMatches / of_nat (length topicWords))"

text \<open>The \<open>for\<close> loop of \<open>isTopicAlreadyCovered\<close> over the existing articles.\<close>

fun covered_by :: "string \<Rightarrow> string list \<Rightarrow> ExistingArticle list \<Rightarrow> bool" where
  "covered_by topicLower topicKeyPhrases [] = False"
| "covered_by topicLower topicKeyPhrases (article # rest) =
     (let titleLower = toLowerCase (ea_title article);
          titleKeyPhrases = extractKeyPhrases titleLower
      in if 2 \<le> length (matchingPhrases topicKeyPhrases titleKeyPhrases) then True
         else if word_overlap topicLower titleLower then True
         else covered_by topicLower topicKeyPhrases rest)"

definition isTopicAlreadyCovered :: "string \<Rightarrow> ExistingArticle list \<Rightarrow> bool" where
  "isTopicAlreadyCovered topic existingArticles =
     (let topicLower = toLowerCase topic;
          topicKeyPhrases = extractKeyPhrases topicLower
      in covered_by topicLower topicKeyPhrases existingArticles)"

section \<open>The duplicate gate of the generators\<close>

record GenResult =
  success :: bool
  message :: string
  articleUrl :: "string option"

definition exn_message :: "exn \<Rightarrow> string" where
  "exn_message e = (case e of JsError m \<Rightarrow> m | JsOther \<Rightarrow> ''Unknown error'')"

text \<open>
  The generators test the value that \<open>checkArticleExists\<close> resolves to, an object with
  the keys \<open>exactMatch\<close> and \<open>similarArticles\<close>: \<^verbatim>\<open>if (exists) { return ... }\<close>.
\<close>

definition check_object :: "DuplicateCheckResult \<Rightarrow> jsval" where
  "check_object r =
     JObj [(''exactMatch'', JBool (exactMatch r)),
           (''similarArticles'', JArr (map article_json (similarArticles r)))]"

definition failed :: "string \<Rightarrow> GenResult" where
  "failed msg = \<lparr>success = False, message = msg, articleUrl = None\<rparr>"

text \<open>
  \<open>generateSEOContent\<close>, \<open>generateFromInsight\<close> and \<open>generateThemeRoundup\<close> up to the
  duplicate check. \<open>rest\<close> stands for the code after the check (research, generation,
  metadata, draft creation), given the candidate; an exception anywhere in the body is
  caught and reported as a failure.
\<close>

definition generateSEOContent ::
  "GhostClient option \<Rightarrow> (string \<Rightarrow> exn + GenResult) \<Rightarrow> string \<Rightarrow> GenResult" where
  "generateSEOContent client rest topic =
     (case (case checkArticleExists client (JStr topic) of
              Inl e \<Rightarrow> Inl e
            | Inr exists \<Rightarrow>
                (if truthy (check_object exists)
                 then Inr (failed (''An article about '' @ [CHR 0x22] @ topic @ [CHR 0x22]
                                   @ '' may already exist. Check Ghost for duplicates.''))
                 else rest topic)) of
        Inl e \<Rightarrow> failed (''Failed to generate SEO article: '' @ exn_message e)
      | Inr r \<Rightarrow> r)"

definition generateFromInsight ::
  "GhostClient option \<Rightarrow> (string \<Rightarrow> exn + GenResult) \<Rightarrow> string \<Rightarrow> GenResult" where
  "generateFromInsight client rest insight =
     (case (case checkArticleExists client (JStr (take 50 insight)) of
              Inl e \<Rightarrow> Inl e
            | Inr exists \<Rightarrow>
                (if truthy (check_object exists)
                 then Inr (failed ''A similar article may already exist. Check Ghost for duplicates.'')
                 else rest insight)) of
        Inl e \<Rightarrow> failed (''Failed to generate insight article: '' @ exn_message e)
      | Inr r \<Rightarrow> r)"

text \<open>
  \<open>generateThemeRoundup\<close>: \<open>interviews\<close> is the outcome of
  \<open>getAllInterviewsWithContent\<close>, \<open>themes\<close> the outcome of \<open>analyzeInterviewsForThemes\<close>
  on them, asked only when no theme was given.
\<close>

definition pick_theme ::
  "(Interview list \<Rightarrow> exn + string list) \<Rightarrow> Interview list \<Rightarrow> string option \<Rightarrow>
   exn + (GenResult + string)" where
  "pick_theme themes ivs themeFocus =
     (let discover =
            (case themes ivs of
               Inl e \<Rightarrow> Inl e
             | Inr [] \<Rightarrow> Inr (Inl (failed ''Could not identify compelling themes from the interviews.''))
             | Inr (t # ts) \<Rightarrow> Inr (Inr t))
      in case themeFocus of
           None \<Rightarrow> discover
         | Some t \<Rightarrow> (if t = [] then discover else Inr (Inr t)))"

definition generateThemeRoundup ::
  "GhostClient option \<Rightarrow> (exn + Interview list) \<Rightarrow> (Interview list \<Rightarrow> exn + string list) \<Rightarrow>
   (string \<Rightarrow> exn + GenResult) \<Rightarrow> string option \<Rightarrow> GenResult" where
  "generateThemeRoundup client interviews themes rest themeFocus =
     (case (case interviews of
              Inl e \<Rightarrow> Inl e
            | Inr ivs \<Rightarrow>
                (if length ivs < 2
                 then Inr (Inl (failed ''Need at least 2 interviews to create a theme roundup.''))
                 else pick_theme themes ivs themeFocus)) of
        Inl e \<Rightarrow> failed (''Failed to generate theme roundup: '' @ exn_message e)
      | Inr (Inl r) \<Rightarrow> r
      | Inr (Inr theme) \<Rightarrow>
          (case (case checkArticleExists client (JStr theme) of
                   Inl e \<Rightarrow> Inl e
                 | Inr exists \<Rightarrow>
                     (if truthy (check_object exists)
                      then Inr (failed (''An article about '' @ [CHR 0x22] @ theme @ [CHR 0x22]
                                        @ '' may already exist. Check Ghost for duplicates.''))
                      else rest theme)) of
             Inl e \<Rightarrow> failed (''Failed to generate theme roundup: '' @ exn_message e)
           | Inr r \<Rightarrow> r))"


section \<open>The response parser (services/ai)\<close>

text \<open>A pattern with its flags \<open>i\<close> and \<open>m\<close>.\<close>

type_synonym pattern = "bool \<times> bool \<times> regex"

definition pmatch :: "pattern \<Rightarrow> string \<Rightarrow> (string \<times> string option) option" where
  "pmatch p txt = (case p of (ci, ml, rx) \<Rightarrow> re_match ci ml rx txt)"

text \<open>
  \<open>match[1].trim()\<close> and the like: a method call on group 1 of a match throws when the
  group is \<open>undefined\<close>.
\<close>

definition group1 :: "string \<times> string option \<Rightarrow> exn + string" where
  "group1 m =
     (case snd m of
        None \<Rightarrow> Inl (JsError ''Cannot read properties of undefined'')
      | Some g \<Rightarrow> Inr g)"

definition then_do :: "exn + 'a \<Rightarrow> ('a \<Rightarrow> exn + 'b) \<Rightarrow> exn + 'b" where
  "then_do m f = (case m of Inl e \<Rightarrow> Inl e | Inr x \<Rightarrow> f x)"

definition dquote :: char where "dquote = CHR 0x22"
definition squote :: char where "squote = CHR 0x27"
definition newline :: char where "newline = CHR 0x0A"
definition backslash :: char where "backslash = CHR 0x5C"

definition any_char :: cclass where "any_char = Neg []"
definition dot :: cclass where "dot = Neg [Ch CHR 0x0A, Ch CHR 0x0D]"
definition quote_cls :: cclass where "quote_cls = Pos [Ch dquote, Ch squote]"
definition label_text :: cclass where "label_text = Neg [Ch dquote, Ch squote, Ch newline]"

text \<open>\<^verbatim>\<open>\s*["']?([^"'\n]+)["']?\<close>, the tail of every label pattern.\<close>

definition label_tail :: "atom list" where
  "label_tail = [star (Pos [Space]), opt quote_cls, GOpen, plus label_text, GClose, opt quote_cls]"

text \<open>\<^verbatim>\<open>/```html\s*([\s\S]*?)```/\<close> and \<^verbatim>\<open>/<[^>]+>[\s\S]*<\/[^>]+>/\<close>\<close>

definition re_html_fence :: pattern where
  "re_html_fence =
     (False, False,
      [lit ''```html'' @ [star (Pos [Space]), GOpen, lazy_star any_char, GClose] @ lit ''```''])"

definition re_html_direct :: pattern where
  "re_html_direct =
     (False, False,
      [lit ''<'' @ [plus (Neg [Ch CHR ''>''])] @ lit ''>'' @ [star any_char]
       @ lit ''</'' @ [plus (Neg [Ch CHR ''>''])] @ lit ''>''])"

text \<open>
  \<^verbatim>\<open>/\*\*Title[:\*]*\*\*\s*["']?([^"'\n]+)["']?/i\<close>,
  \<^verbatim>\<open>/Title:\s*["']?([^"'\n]+)["']?/i\<close>,
  \<^verbatim>\<open>/^#\s+(.+)$/m\<close>,
  \<^verbatim>\<open>/Suggested [Tt]itle:\s*["']?([^"'\n]+)["']?/i\<close>
\<close>

definition titlePatterns :: "pattern list" where
  "titlePatterns =
     [(True, False,
       [lit ''**Title'' @ [star (Pos [Ch CHR '':'', Ch CHR ''*''])] @ lit ''**'' @ label_tail]),
      (True, False, [lit ''Title:'' @ label_tail]),
      (False, True, [[Bol] @ lit ''#'' @ [plus (Pos [Space]), GOpen, plus dot, GClose, Eol]]),
      (True, False,
       [lit ''Suggested '' @ [one (Pos [Ch CHR ''T'', Ch CHR ''t''])] @ lit ''itle:'' @ label_tail])]"

text \<open>\<^verbatim>\<open>/<h1[^>]*>(.*?)<\/h1>/i\<close>, \<^verbatim>\<open>/\*\*([A-Z][^*\n]{10,80})\*\*/\<close>, \<^verbatim>\<open>/<h2[^>]*>(.*?)<\/h2>/i\<close>\<close>

definition re_heading :: "string \<Rightarrow> pattern" where
  "re_heading h =
     (True, False,
      [lit (''<'' @ h) @ [star (Neg [Ch CHR ''>''])] @ lit ''>''
       @ [GOpen, lazy_star dot, GClose] @ lit (''</'' @ h @ ''>'')])"

definition re_bold :: pattern where
  "re_bold =
     (False, False,
      [lit ''**''
       @ [GOpen, one (Pos [Range CHR ''A'' CHR ''Z'']),
          Rep (Neg [Ch CHR ''*'', Ch newline]) 10 (Some 80) True, GClose]
       @ lit ''**''])"

text \<open>\<^verbatim>\<open>/<[^>]*>/g\<close>, \<^verbatim>\<open>/^\*+|\*+$/g\<close>, \<^verbatim>\<open>/^["']|["']$/g\<close>, \<^verbatim>\<open>/^["'\*]+|["'\*]+$/g\<close>\<close>

definition strip_tags :: "string \<Rightarrow> string" where
  "strip_tags s =
     replace_all False False [lit ''<'' @ [star (Neg [Ch CHR ''>''])] @ lit ''>''] [] s"

definition strip_stars :: "string \<Rightarrow> string" where
  "strip_stars s =
     replace_all False False
       [[Bol, plus (Pos [Ch CHR ''*''])], [plus (Pos [Ch CHR ''*'']), Eol]] [] s"

definition strip_one_quote :: "string \<Rightarrow> string" where
  "strip_one_quote s =
     replace_all False False [[Bol, one quote_cls], [one quote_cls, Eol]] [] s"

definition strip_wrapping :: "string \<Rightarrow> string" where
  "strip_wrapping s =
     replace_all False False
       [[Bol, plus (Pos [Ch dquote, Ch squote, Ch CHR ''*''])],
        [plus (Pos [Ch dquote, Ch squote, Ch CHR ''*'']), Eol]] [] s"

definition replace_lit :: "string \<Rightarrow> string \<Rightarrow> string \<Rightarrow> string" where
  "replace_lit pat sub s = replace_all False False [lit pat] sub s"

text \<open>The HTML body: a fenced block marked as HTML, or else the first tag up to the last closing tag.\<close>

definition extract_html :: "string \<Rightarrow> exn + string" where
  "extract_html txt =
     (case pmatch re_html_fence txt of
        Some htmlMatch \<Rightarrow> then_do (group1 htmlMatch) (\<lambda>g. Inr (trim g))
      | None \<Rightarrow>
          (case pmatch re_html_direct txt of
             Some directHtmlMatch \<Rightarrow> Inr (fst directHtmlMatch)
           | None \<Rightarrow> Inr []))"

text \<open>
  The \<open>for\<close> loop over \<open>titlePatterns\<close>: the first pattern that matches with a group
  that is not blank sets the title and ends the loop.
\<close>

fun title_labels :: "pattern list \<Rightarrow> string \<Rightarrow> exn + string" where
  "title_labels [] txt = Inr []"
| "title_labels (p # ps) txt =
     (case pmatch p txt of
        None \<Rightarrow> title_labels ps txt
      | Some m \<Rightarrow>
          then_do (group1 m)
            (\<lambda>g. if trim g \<noteq> [] then Inr (strip_one_quote (strip_stars (trim g)))
                  else title_labels ps txt))"

text \<open>The three fallbacks, each guarded by \<^verbatim>\<open>if (!title)\<close>, in the order of the source.\<close>

definition title_heading :: "string \<Rightarrow> string \<Rightarrow> string \<Rightarrow> exn + string" where
  "title_heading h html title =
     (if title \<noteq> [] then Inr title
      else (case pmatch (re_heading h) html of
              None \<Rightarrow> Inr title
            | Some m \<Rightarrow> then_do (group1 m) (\<lambda>g. Inr (trim (strip_tags g)))))"

definition title_bold :: "string \<Rightarrow> string \<Rightarrow> exn + string" where
  "title_bold txt title =
     (if title \<noteq> [] then Inr title
      else (case pmatch re_bold txt of
              None \<Rightarrow> Inr title
            | Some strongMatch \<Rightarrow> then_do (group1 strongMatch) (\<lambda>g. Inr (trim g))))"

definition clean_title :: "string \<Rightarrow> string" where
  "clean_title title = trim (replace_lit [backslash, dquote] [dquote] (strip_wrapping title))"

definition extract_title :: "string \<Rightarrow> string \<Rightarrow> exn + string" where
  "extract_title txt html =
     then_do (title_labels titlePatterns txt) (\<lambda>t1.
     then_do (title_heading ''h1'' html t1) (\<lambda>t2.
     then_do (title_bold txt t2) (\<lambda>t3.
     then_do (title_heading ''h2'' html t3) (\<lambda>t4.
     Inr (clean_title t4)))))"

definition clean_html :: "string \<Rightarrow> string" where
  "clean_html html =
     replace_lit ''&amp;#39;'' [squote]
       (replace_lit ''&amp;quot;'' [dquote]
          (replace_lit [backslash, CHR ''n''] [newline]
             (replace_lit [backslash, CHR ''*''] ''*''
                (replace_lit [backslash, CHR ''_''] ''_''
                   (replace_lit [backslash, squote] [squote]
                      (replace_lit [backslash, dquote] [dquote] html))))))"

text \<open>\<^verbatim>\<open>/Tags?:\s*(.+)/i\<close> and \<open>split(',')\<close>\<close>

definition re_tags :: pattern where
  "re_tags =
     (True, False,
      [lit ''Tag'' @ [opt (Pos [Ch CHR ''s''])] @ lit '':''
       @ [star (Pos [Space]), GOpen, plus dot, GClose]])"

fun split_on :: "char \<Rightarrow> string \<Rightarrow> string \<Rightarrow> string list" where
  "split_on sep [] cur = [cur]"
| "split_on sep (c # cs) cur =
     (if c = sep then cur # split_on sep cs [] else split_on sep cs (cur @ [c]))"

definition extract_tags :: "string \<Rightarrow> exn + string list" where
  "extract_tags txt =
     (case pmatch re_tags txt of
        None \<Rightarrow> Inr []
      | Some tagsMatch \<Rightarrow>
          then_do (group1 tagsMatch)
            (\<lambda>g. Inr (filter (\<lambda>t. 0 < length t)
                        (map (\<lambda>t. trim (strip_wrapping (toLowerCase (trim t))))
                           (split_on CHR '','' g [])))))"

text \<open>
  \<^verbatim>\<open>/Meta\s*[Dd]escription:\s*["']?([^"'\n]+)["']?/i\<close>,
  \<^verbatim>\<open>/\*\*Meta [Dd]escription[:\*]*\*\*\s*["']?([^"'\n]+)["']?/i\<close>
\<close>

definition metaPatterns :: "pattern list" where
  "metaPatterns =
     [(True, False,
       [lit ''Meta'' @ [star (Pos [Space]), one (Pos [Ch CHR ''D'', Ch CHR ''d''])]
        @ lit ''escription:'' @ label_tail]),
      (True, False,
       [lit ''**Meta '' @ [one (Pos [Ch CHR ''D'', Ch CHR ''d''])] @ lit ''escription''
        @ [star (Pos [Ch CHR '':'', Ch CHR ''*''])] @ lit ''**'' @ label_tail])]"

text \<open>
  \<^verbatim>\<open>/Excerpt:\s*["']?([^"'\n]+)["']?/i\<close>,
  \<^verbatim>\<open>/\*\*Excerpt[:\*]*\*\*\s*["']?([^"'\n]+)["']?/i\<close>,
  \<^verbatim>\<open>/Custom [Ee]xcerpt:\s*["']?([^"'\n]+)["']?/i\<close>
\<close>

definition excerptPatterns :: "pattern list" where
  "excerptPatterns =
     [(True, False, [lit ''Excerpt:'' @ label_tail]),
      (True, False,
       [lit ''**Excerpt'' @ [star (Pos [Ch CHR '':'', Ch CHR ''*''])] @ lit ''**'' @ label_tail]),
      (True, False,
       [lit ''Custom '' @ [one (Pos [Ch CHR ''E'', Ch CHR ''e''])] @ lit ''xcerpt:'' @ label_tail])]"

text \<open>
  The loops over \<open>metaPatterns\<close> and \<open>excerptPatterns\<close>: the first pattern that matches
  sets the field, to \<open>post\<close> of its group, and ends the loop.
\<close>

fun first_label :: "(string \<Rightarrow> string) \<Rightarrow> pattern list \<Rightarrow> string \<Rightarrow> exn + string" where
  "first_label post [] txt = Inr []"
| "first_label post (p # ps) txt =
     (case pmatch p txt of
        None \<Rightarrow> first_label post ps txt
      | Some m \<Rightarrow> then_do (group1 m) (\<lambda>g. Inr (post g)))"

record ArticleGenerationResult =
  r_article :: Article
  r_suggestedTags :: "string list"
  r_metaTitle :: string
  r_metaDescription :: string
  r_excerpt :: string

definition parseArticleResponse :: "string \<Rightarrow> exn + ArticleGenerationResult" where
  "parseArticleResponse txt =
     then_do (extract_html txt) (\<lambda>html0.
     then_do (extract_title txt html0) (\<lambda>title.
     then_do (extract_tags txt) (\<lambda>tags.
     then_do (first_label trim metaPatterns txt) (\<lambda>metaDesc.
     then_do (first_label (\<lambda>g. trim (strip_stars (trim g))) excerptPatterns txt) (\<lambda>exc.
       (let html = clean_html html0;
            mt = (if title \<noteq> [] then title @ '' | Style Me Pretty'' else [])
        in Inr \<lparr>r_article =
                  \<lparr>a_title = title, a_slug = [], a_html = JStr html, a_excerpt = JStr exc,
                   a_tags = JArr (map JStr tags), a_metaTitle = JStr mt,
                   a_metaDescription = JStr metaDesc, a_featureImage = JUndefined,
                   a_status = Draft\<rparr>,
                r_suggestedTags = tags, r_metaTitle = mt, r_metaDescription = metaDesc,
                r_excerpt = exc\<rparr>))))))"


section \<open>Notions the properties are stated with\<close>

text \<open>The identifiers of the tool-use blocks of a turn, in the order of the turn.\<close>

fun tool_use_ids :: "block list \<Rightarrow> string list" where
  "tool_use_ids [] = []"
| "tool_use_ids (ToolUseBlock bid name input # bs) = bid # tool_use_ids bs"
| "tool_use_ids (b # bs) = tool_use_ids bs"

fun is_tool_use :: "block \<Rightarrow> bool" where
  "is_tool_use (ToolUseBlock bid name input) = True"
| "is_tool_use b = False"

text \<open>
  \<open>next_call a b\<close>: the model answered the conversation \<open>a\<close> with a tool-use turn, and
  \<open>b\<close> is \<open>a\<close> with that turn and one user turn holding the results of its tools.
\<close>

definition next_call :: "Env \<Rightarrow> LLM \<Rightarrow> string \<Rightarrow> string option \<Rightarrow> message list \<Rightarrow> message list \<Rightarrow> bool" where
  "next_call env llm folderId ideasFolderId a b =
     (\<exists>r. llm a = Inr r \<and> stop_reason r = ''tool_use'' \<and>
          b = a @ [AssistantTurn (resp_content r),
                   UserToolResults (run_tools env folderId ideasFolderId (resp_content r) [])])"

text \<open>The properties that the schema of a tool declares; none for a name not in the catalogue.\<close>

definition declared_fields :: "string \<Rightarrow> string list" where
  "declared_fields name =
     (case find (\<lambda>t. ts_name t = name) tools of None \<Rightarrow> [] | Some t \<Rightarrow> ts_properties t)"

definition required_fields :: "string \<Rightarrow> string list" where
  "required_fields name =
     (case find (\<lambda>t. ts_name t = name) tools of None \<Rightarrow> [] | Some t \<Rightarrow> ts_required t)"

text \<open>
  A pattern whose every alternative closes the capture group, so that a match always
  has group 1.
\<close>

definition has_group :: "pattern \<Rightarrow> bool" where
  "has_group p = list_all (\<lambda>alt. GClose \<in> set alt) (snd (snd p))"

text \<open>
  What each title fallback would give on its own: the text of the first heading \<open>h\<close>
  of the extracted HTML without its tags, and the first bold phrase of the response;
  empty when there is none.
\<close>

definition heading_title :: "string \<Rightarrow> string \<Rightarrow> string" where
  "heading_title h html =
     (case pmatch (re_heading h) html of
        None \<Rightarrow> []
      | Some m \<Rightarrow> (case snd m of None \<Rightarrow> [] | Some g \<Rightarrow> trim (strip_tags g)))"

definition bold_title :: "string \<Rightarrow> string" where
  "bold_title txt =
     (case pmatch re_bold txt of
        None \<Rightarrow> []
      | Some m \<Rightarrow> (case snd m of None \<Rightarrow> [] | Some g \<Rightarrow> trim g))"


section \<open>Concrete collaborators for the examples\<close>

definition env_demo :: Env where
  "env_demo =
     \<lparr>listInterviews = (\<lambda>f. Inr []),
      getInterview = (\<lambda>d. Inl (JsError ''no such document'')),
      listArticleIdeas = (\<lambda>f. Inr []),
      getIdea = (\<lambda>d. Inl JsOther),
      ghostClient = None,
      searchWeb = (\<lambda>q n. Inr []),
      researchTopic = (\<lambda>t. Inr ''nothing''),
      envIdeasFolderId = None,
      toNumber = (\<lambda>v. 0)\<rparr>"

text \<open>
  A model that asks for two tools (one of them unknown to the executor) in each of its
  first fifteen answers and stops of its own accord in the sixteenth.
\<close>

definition llm_demo :: LLM where
  "llm_demo msgs =
     (if length msgs < 31
      then Inr \<lparr>stop_reason = ''tool_use'',
                resp_content = [ToolUseBlock ''t1'' ''nope'' Map.empty, TextBlock ''x'',
                                ToolUseBlock ''t2'' ''read_interview'' Map.empty]\<rparr>
      else Inr \<lparr>stop_reason = ''end_turn'', resp_content = [TextBlock ''done'']\<rparr>)"

text \<open>A store that accepts every post, and a tool input for \<open>create_draft\<close> with no \<open>html\<close>.\<close>

definition ghost_demo :: GhostClient where
  "ghost_demo =
     \<lparr>browse_all = Inr [\<lparr>ea_id = ''1'', ea_title = ''Completely Different Title'',
                          ea_slug = ''completely-different-title'', ea_publishedAt = JNull\<rparr>],
      posts_add = (\<lambda>pd. Inr \<lparr>post_id = ''p1'', post_url = ''https://blog/p1''\<rparr>)\<rparr>"

definition env_ghost :: Env where
  "env_ghost = env_demo\<lparr>ghostClient := Some ghost_demo\<rparr>"

definition input_no_html :: tool_input where
  "input_no_html = [''title'' \<mapsto> JStr ''Hello'']"

definition article_published :: Article where
  "article_published =
     \<lparr>a_title = ''Hello'', a_slug = [], a_html = JStr ''<p>x</p>'', a_excerpt = JUndefined,
      a_tags = JArr [JStr ''news''], a_metaTitle = JUndefined, a_metaDescription = JUndefined,
      a_featureImage = JUndefined, a_status = Published\<rparr>"

text \<open>
  An existing article whose title repeats the three long words of a topic that has no
  key phrase; the code after the duplicate gate of a generator, when it creates a draft;
  two interviews.
\<close>

definition article_gardens :: ExistingArticle where
  "article_gardens =
     \<lparr>ea_id = ''9'', ea_title = ''Forever Beautiful Gardens Again'',
      ea_slug = ''forever-beautiful-gardens-again'', ea_publishedAt = JNull\<rparr>"

definition rest_creates :: "string \<Rightarrow> exn + GenResult" where
  "rest_creates candidate =
     Inr \<lparr>success = True, message = ''Created: '' @ candidate, articleUrl = Some ''https://blog/p1''\<rparr>"

definition interviews_demo :: "Interview list" where
  "interviews_demo =
     [\<lparr>iv_id = ''a'', iv_title = ''A'', iv_content = ''...'', iv_vendorName = None,
       iv_vendorType = None, iv_createdAt = None\<rparr>,
      \<lparr>iv_id = ''b'', iv_title = ''B'', iv_content = ''...'', iv_vendorName = None,
       iv_vendorType = None, iv_createdAt = None\<rparr>]"

text \<open>
  Three responses without any label: one with a bold phrase before a second-level
  heading, one with a first-level heading before a bold phrase, and one without any
  marker.
\<close>

definition response_bold_h2 :: string where
  "response_bold_h2 = ''**Abcdefghijk**<h2>T</h2>''"

definition response_h1_bold :: string where
  "response_h1_bold = ''<h1>Top</h1>**Abcdefghijk**''"

definition response_plain :: string where
  "response_plain = ''hi there''"


section \<open>The agent loop: tool results\<close>

lemma tool_block_ids:
  "map tool_use_id (tool_block env f i b) = tool_use_ids [b]"
  by (cases b) (auto split: sum.splits)

lemma tool_use_ids_Cons: "tool_use_ids (b # bs) = tool_use_ids [b] @ tool_use_ids bs"
  by (cases b) auto

lemma run_tools_ids:
  "map tool_use_id (run_tools env f i bs acc) = map tool_use_id acc @ tool_use_ids bs"
proof (induction bs arbitrary: acc)
  case Nil
  then show ?case by simp
next
  case (Cons b bs)
  show ?case
    using Cons.IH [of "acc @ tool_block env f i b"] tool_use_ids_Cons [of b bs]
    by (simp add: tool_block_ids)
qed

lemma tool_use_ids_length: "length (tool_use_ids bs) = length (filter is_tool_use bs)"
  by (induction bs rule: tool_use_ids.induct) auto

lemma agent_loop_chain:
  "agent_loop env llm f i st = (res, cs) \<Longrightarrow> calls st \<noteq> [] \<Longrightarrow> last (calls st) = messages st \<Longrightarrow>
   llm (messages st) = Inr (response st) \<Longrightarrow> successively (next_call env llm f i) (calls st) \<Longrightarrow>
   successively (next_call env llm f i) cs"
proof (induction env llm f i st arbitrary: res cs rule: agent_loop.induct)
  case (1 env llm f i st)
  show ?case
  proof (cases "stop_reason (response st) = ''tool_use'' \<and> iterations st < maxIterations")
    case False
    with "1.prems" show ?thesis by (simp add: agent_loop.simps)
  next
    case True
    define msgs where "msgs = messages st @ [AssistantTurn (resp_content (response st)),
        UserToolResults (run_tools env f i (resp_content (response st)) [])]"
    have step: "next_call env llm f i (last (calls st)) msgs"
      using True "1.prems"(3,4) by (auto simp: next_call_def msgs_def)
    have chain: "successively (next_call env llm f i) (calls st @ [msgs])"
      using "1.prems"(2,5) step by (simp add: successively_append_iff)
    show ?thesis
    proof (cases "llm msgs")
      case (Inl e)
      with True "1.prems"(1) have "cs = calls st @ [msgs]"
        by (simp add: agent_loop.simps [of env llm f i st] msgs_def Let_def)
      with chain show ?thesis by simp
    next
      case (Inr r)
      let ?st = "\<lparr>iterations = Suc (iterations st), messages = msgs, response = r,
                   calls = calls st @ [msgs]\<rparr>"
      from True Inr "1.prems"(1) have run: "agent_loop env llm f i ?st = (res, cs)"
        by (simp add: agent_loop.simps [of env llm f i st] msgs_def Let_def)
      show ?thesis
        by (rule "1.IH" [OF True refl refl _ Inr run])
           (use Inr chain in \<open>simp_all add: msgs_def\<close>)
    qed
  qed
qed

lemma run_chain:
  "successively (next_call env llm f i) (sent (runContentAgent env llm request f i))"
proof (cases "llm [UserText request]")
  case (Inl e)
  then show ?thesis by (simp add: runContentAgent_def)
next
  case (Inr r)
  let ?st = "\<lparr>iterations = 0, messages = [UserText request], response = r,
               calls = [[UserText request]]\<rparr>"
  obtain res cs where run: "agent_loop env llm f i ?st = (res, cs)"
    by (cases "agent_loop env llm f i ?st")
  have "successively (next_call env llm f i) cs"
    by (rule agent_loop_chain [OF run]) (use Inr in simp_all)
  with Inr run show ?thesis
    by (cases res) (simp_all add: runContentAgent_def Let_def)
qed

text \<open>
  C1. Every model call after the first receives the conversation of the call before it,
  extended by the assistant turn the model answered and by one user turn that holds
  exactly one result for each tool-use block of that turn, in the order of the blocks.
\<close>

theorem tool_results_per_turn:
  assumes "cs = sent (runContentAgent env llm request folderId ideasFolderId)"
    and "Suc k < length cs"
  shows "\<exists>r rs. llm (cs ! k) = Inr r
           \<and> cs ! Suc k = cs ! k @ [AssistantTurn (resp_content r), UserToolResults rs]
           \<and> length rs = length (filter is_tool_use (resp_content r))
           \<and> map tool_use_id rs = tool_use_ids (resp_content r)"
proof -
  have "next_call env llm folderId ideasFolderId (cs ! k) (cs ! Suc k)"
    using run_chain [of env llm folderId ideasFolderId request] assms
    by (simp add: successively_conv_nth)
  then obtain r where r: "llm (cs ! k) = Inr r"
    and nxt: "cs ! Suc k = cs ! k @ [AssistantTurn (resp_content r),
        UserToolResults (run_tools env folderId ideasFolderId (resp_content r) [])]"
    by (auto simp: next_call_def)
  have ids: "map tool_use_id (run_tools env folderId ideasFolderId (resp_content r) [])
      = tool_use_ids (resp_content r)"
    by (simp add: run_tools_ids)
  have "length (run_tools env folderId ideasFolderId (resp_content r) [])
      = length (filter is_tool_use (resp_content r))"
    using arg_cong [OF ids, of length] by (simp add: tool_use_ids_length)
  with r nxt ids show ?thesis by blast
qed

theorem tool_results_per_turn_witness:
  "Suc 0 < length (sent (runContentAgent env_demo llm_demo ''go'' ''folder'' None))
   \<and> (\<exists>r rs. llm_demo (sent (runContentAgent env_demo llm_demo ''go'' ''folder'' None) ! 0) = Inr r
        \<and> sent (runContentAgent env_demo llm_demo ''go'' ''folder'' None) ! Suc 0
            = sent (runContentAgent env_demo llm_demo ''go'' ''folder'' None) ! 0
              @ [AssistantTurn (resp_content r), UserToolResults rs]
        \<and> length rs = length (filter is_tool_use (resp_content r))
        \<and> map tool_use_id rs = tool_use_ids (resp_content r))"
proof -
  have len: "Suc 0 < length (sent (runContentAgent env_demo llm_demo ''go'' ''folder'' None))"
    by code_simp
  show ?thesis
    using len tool_results_per_turn [OF refl len] by blast
qed


section \<open>The agent loop: the iteration ceiling\<close>

lemma agent_loop_prefix:
  "agent_loop env llm f i st = (res, cs) \<Longrightarrow> \<exists>rest. cs = calls st @ rest"
proof (induction env llm f i st arbitrary: res cs rule: agent_loop.induct)
  case (1 env llm f i st)
  show ?case
  proof (cases "stop_reason (response st) = ''tool_use'' \<and> iterations st < maxIterations")
    case False
    with "1.prems" show ?thesis by (simp add: agent_loop.simps)
  next
    case True
    define msgs where "msgs = messages st @ [AssistantTurn (resp_content (response st)),
        UserToolResults (run_tools env f i (resp_content (response st)) [])]"
    show ?thesis
    proof (cases "llm msgs")
      case (Inl e)
      with True "1.prems"(1) have "cs = calls st @ [msgs]"
        by (simp add: agent_loop.simps [of env llm f i st] msgs_def Let_def)
      then show ?thesis by simp
    next
      case (Inr r)
      let ?st = "\<lparr>iterations = Suc (iterations st), messages = msgs, response = r,
                   calls = calls st @ [msgs]\<rparr>"
      from True Inr "1.prems"(1) have run: "agent_loop env llm f i ?st = (res, cs)"
        by (simp add: agent_loop.simps [of env llm f i st] msgs_def Let_def)
      have "\<exists>rest. cs = calls ?st @ rest"
        by (rule "1.IH" [OF True refl refl _ Inr run]) (simp add: msgs_def)
      then show ?thesis by auto
    qed
  qed
qed

lemma agent_loop_bound:
  "agent_loop env llm f i st = (res, cs) \<Longrightarrow> iterations st \<le> maxIterations \<Longrightarrow>
   length cs + iterations st \<le> length (calls st) + maxIterations"
proof (induction env llm f i st arbitrary: res cs rule: agent_loop.induct)
  case (1 env llm f i st)
  show ?case
  proof (cases "stop_reason (response st) = ''tool_use'' \<and> iterations st < maxIterations")
    case False
    with "1.prems" show ?thesis by (simp add: agent_loop.simps)
  next
    case True
    define msgs where "msgs = messages st @ [AssistantTurn (resp_content (response st)),
        UserToolResults (run_tools env f i (resp_content (response st)) [])]"
    show ?thesis
    proof (cases "llm msgs")
      case (Inl e)
      with True "1.prems"(1) have "cs = calls st @ [msgs]"
        by (simp add: agent_loop.simps [of env llm f i st] msgs_def Let_def)
      with True show ?thesis by simp
    next
      case (Inr r)
      let ?st = "\<lparr>iterations = Suc (iterations st), messages = msgs, response = r,
                   calls = calls st @ [msgs]\<rparr>"
      from True Inr "1.prems"(1) have run: "agent_loop env llm f i ?st = (res, cs)"
        by (simp add: agent_loop.simps [of env llm f i st] msgs_def Let_def)
      have "length cs + iterations ?st \<le> length (calls ?st) + maxIterations"
        by (rule "1.IH" [OF True refl refl _ Inr run]) (use True in \<open>simp_all add: msgs_def\<close>)
      then show ?thesis by simp
    qed
  qed
qed

lemma agent_loop_final:
  "agent_loop env llm f i st = (Inr st', cs) \<Longrightarrow> calls st \<noteq> [] \<Longrightarrow>
   last (calls st) = messages st \<Longrightarrow> llm (messages st) = Inr (response st) \<Longrightarrow>
   cs \<noteq> [] \<and> llm (last cs) = Inr (response st')
   \<and> iterations st' + length (calls st) = iterations st + length cs
   \<and> (stop_reason (response st') = ''tool_use'' \<longrightarrow> maxIterations \<le> iterations st')"
proof (induction env llm f i st arbitrary: cs rule: agent_loop.induct)
  case (1 env llm f i st)
  show ?case
  proof (cases "stop_reason (response st) = ''tool_use'' \<and> iterations st < maxIterations")
    case False
    with "1.prems" show ?thesis by (auto simp add: agent_loop.simps)
  next
    case True
    define msgs where "msgs = messages st @ [AssistantTurn (resp_content (response st)),
        UserToolResults (run_tools env f i (resp_content (response st)) [])]"
    show ?thesis
    proof (cases "llm msgs")
      case (Inl e)
      with True "1.prems"(1) have False
        by (simp add: agent_loop.simps [of env llm f i st] msgs_def Let_def)
      then show ?thesis ..
    next
      case (Inr r)
      let ?st = "\<lparr>iterations = Suc (iterations st), messages = msgs, response = r,
                   calls = calls st @ [msgs]\<rparr>"
      from True Inr "1.prems"(1) have run: "agent_loop env llm f i ?st = (Inr st', cs)"
        by (simp add: agent_loop.simps [of env llm f i st] msgs_def Let_def)
      have "cs \<noteq> [] \<and> llm (last cs) = Inr (response st')
        \<and> iterations st' + length (calls ?st) = iterations ?st + length cs
        \<and> (stop_reason (response st') = ''tool_use'' \<longrightarrow> maxIterations \<le> iterations st')"
        by (rule "1.IH" [OF True refl refl _ Inr run])
           (use Inr in \<open>simp_all add: msgs_def\<close>)
      then show ?thesis by simp
    qed
  qed
qed

text \<open>
  C2 (as amended). A run calls the model at most \<open>maxIterations + 1\<close> times. When it
  returns a text, that text is the text of the last response followed by the note exactly
  when the model was called \<open>maxIterations + 1\<close> times, that is when the loop body ran
  \<open>maxIterations\<close> times; otherwise the last response was not a tool-use response and
  its text is returned as it is.
\<close>

theorem iteration_limit_note:
  assumes "run = runContentAgent env llm request folderId ideasFolderId"
  shows "length (sent run) \<le> maxIterations + 1
       \<and> (\<forall>txt. returned run = Inr txt \<longrightarrow>
            (\<exists>r. llm (last (sent run)) = Inr r
               \<and> (if length (sent run) = maxIterations + 1
                  then txt = final_text r @ limit_note
                  else stop_reason r \<noteq> ''tool_use'' \<and> txt = final_text r)))"
proof (cases "llm [UserText request]")
  case (Inl e)
  with assms show ?thesis by (simp add: runContentAgent_def maxIterations_def)
next
  case (Inr r0)
  let ?st = "\<lparr>iterations = 0, messages = [UserText request], response = r0,
               calls = [[UserText request]]\<rparr>"
  obtain res cs where run: "agent_loop env llm folderId ideasFolderId ?st = (res, cs)"
    by (cases "agent_loop env llm folderId ideasFolderId ?st")
  have bound: "length cs \<le> maxIterations + 1"
    using agent_loop_bound [OF run] by simp
  show ?thesis
  proof (cases res)
    case (Inl e)
    with Inr run assms bound show ?thesis by (simp add: runContentAgent_def)
  next
    case (Inr st')
    have fin: "cs \<noteq> [] \<and> llm (last cs) = Inr (response st')
        \<and> iterations st' + length (calls ?st) = iterations ?st + length cs
        \<and> (stop_reason (response st') = ''tool_use'' \<longrightarrow> maxIterations \<le> iterations st')"
      by (rule agent_loop_final) (use run Inr \<open>llm [UserText request] = Inr r0\<close> in simp_all)
    then have it: "Suc (iterations st') = length cs" by simp
    have ret: "returned run = Inr (if maxIterations \<le> iterations st'
        then final_text (response st') @ limit_note else final_text (response st'))"
      and snt: "sent run = cs"
      using assms run Inr \<open>llm [UserText request] = Inr r0\<close>
      by (simp_all add: runContentAgent_def Let_def)
    show ?thesis
      using bound fin it ret snt by auto
  qed
qed

theorem iteration_limit_note_witness:
  "length (sent (runContentAgent env_demo llm_demo ''go'' ''folder'' None)) \<le> maxIterations + 1
   \<and> returned (runContentAgent env_demo llm_demo ''go'' ''folder'' None) = Inr (''done'' @ limit_note)
   \<and> (\<exists>r. llm_demo (last (sent (runContentAgent env_demo llm_demo ''go'' ''folder'' None))) = Inr r
         \<and> ''done'' @ limit_note = final_text r @ limit_note)"
proof -
  have ret: "returned (runContentAgent env_demo llm_demo ''go'' ''folder'' None)
      = Inr (''done'' @ limit_note)"
    by code_simp
  have len: "length (sent (runContentAgent env_demo llm_demo ''go'' ''folder'' None))
      = maxIterations + 1"
    by code_simp
  show ?thesis
    using iteration_limit_note [OF refl, of env_demo llm_demo "''go''" "''folder''" None] ret len
    by auto
qed

text \<open>
  The claim as stated fails: here the sixteenth response is a natural stop
  (\<open>end_turn\<close>), and the returned text carries the note all the same.
\<close>

theorem note_after_natural_stop:
  "returned (runContentAgent env_demo llm_demo ''go'' ''folder'' None) = Inr (''done'' @ limit_note)
   \<and> (case llm_demo (last (sent (runContentAgent env_demo llm_demo ''go'' ''folder'' None))) of
        Inl e \<Rightarrow> False
      | Inr r \<Rightarrow> stop_reason r = ''end_turn'' \<and> stop_reason r \<noteq> ''tool_use'')"
  by code_simp


section \<open>The executor: failures of a tool\<close>

lemma error_text_nonempty: "error_text e \<noteq> []"
  by (simp add: error_text_def)

lemma unknown_tool_result:
  "name \<notin> set (map ts_name tools) \<Longrightarrow>
   executeTool env name input f i
     = Inr (JSON_stringify 0 (JObj [(''error'', JStr (''Unknown tool: '' @ name))]))"
  by (simp add: tools_def executeTool_def)

lemma error_json_nonempty: "JSON_stringify 0 (JObj [(k, JStr s)]) \<noteq> []"
  by (simp add: JSON_stringify_def json_wrap_def)

text \<open>
  C3 (as amended). A tool-use block always gives exactly one result, so no exception of
  a tool leaves the loop body. When the handler throws, the result is flagged as an
  error and its content is the non-empty text \<open>Error: ...\<close>. A tool name that the
  executor does not know is not an exception: the result is not flagged, and its content
  is the non-empty JSON text \<open>{"error":"Unknown tool: <name>"}\<close>.
\<close>

theorem tool_failures_become_results:
  "\<exists>r. tool_block env folderId ideasFolderId (ToolUseBlock bid name input) = [r]
     \<and> tool_use_id r = bid
     \<and> (case executeTool env name input folderId ideasFolderId of
          Inl e \<Rightarrow> is_error r \<and> tr_content r = error_text e \<and> tr_content r \<noteq> []
        | Inr s \<Rightarrow> \<not> is_error r \<and> tr_content r = s)
     \<and> (name \<notin> set (map ts_name tools) \<longrightarrow>
          \<not> is_error r
          \<and> tr_content r = JSON_stringify 0 (JObj [(''error'', JStr (''Unknown tool: '' @ name))])
          \<and> tr_content r \<noteq> [])"
proof (cases "executeTool env name input folderId ideasFolderId")
  case (Inl e)
  then have known: "\<not> name \<notin> set (map ts_name tools)"
    using unknown_tool_result [of name env input folderId ideasFolderId] by auto
  show ?thesis
    using Inl known error_text_nonempty [of e] by simp
next
  case (Inr s)
  show ?thesis
    using Inr unknown_tool_result [of name env input folderId ideasFolderId]
      error_json_nonempty [of "''error''" "''Unknown tool: '' @ name"]
    by auto
qed

theorem tool_failures_become_results_witness:
  "''nope'' \<notin> set (map ts_name tools)
   \<and> (\<exists>r. tool_block env_demo ''folder'' None (ToolUseBlock ''t1'' ''nope'' Map.empty) = [r]
        \<and> \<not> is_error r \<and> tr_content r \<noteq> [])
   \<and> (\<exists>r. tool_block env_demo ''folder'' None (ToolUseBlock ''t2'' ''read_interview'' Map.empty) = [r]
        \<and> is_error r \<and> tr_content r = ''Error: no such document'')"
proof -
  have unknown: "''nope'' \<notin> set (map ts_name tools)"
    by code_simp
  have thrown: "executeTool env_demo ''read_interview'' Map.empty ''folder'' None
      = Inl (JsError ''no such document'')"
    by code_simp
  have msg: "error_text (JsError ''no such document'') = ''Error: no such document''"
    by code_simp
  show ?thesis
    using unknown thrown msg
      tool_failures_become_results [of env_demo "''folder''" None "''t1''" "''nope''" Map.empty]
      tool_failures_become_results [of env_demo "''folder''" None "''t2''" "''read_interview''" Map.empty]
    by auto
qed

text \<open>
  The claim as stated fails for an unknown tool name: the result is not flagged as an
  error.
\<close>

theorem unknown_tool_not_flagged:
  "tool_block env_demo ''folder'' None (ToolUseBlock ''t1'' ''nope'' Map.empty)
     = [\<lparr>tool_use_id = ''t1'',
         tr_content = ''{'' @ [CHR 0x22] @ ''error'' @ [CHR 0x22] @ '':'' @ [CHR 0x22]
                      @ ''Unknown tool: nope'' @ [CHR 0x22] @ ''}'',
         is_error = False\<rparr>]"
  by code_simp


section \<open>The executor: no validation of the input\<close>

lemma field_restrict: "k \<in> S \<Longrightarrow> field (input |` S) k = field input k"
  by (simp add: field_def)

lemma declared_simps:
  "declared_fields ''list_interviews'' = []"
  "declared_fields ''read_interview'' = [''documentId'']"
  "declared_fields ''list_articles'' = [''limit'']"
  "declared_fields ''search_articles'' = [''query'']"
  "declared_fields ''check_duplicate'' = [''title'']"
  "declared_fields ''create_draft'' = [''title'', ''html'', ''excerpt'', ''metaDescription'', ''tags'']"
  "declared_fields ''web_search'' = [''query'', ''maxResults'']"
  "declared_fields ''research_topic'' = [''topic'']"
  "declared_fields ''list_ideas'' = []"
  "declared_fields ''read_idea'' = [''documentId'']"
  by (simp_all add: declared_fields_def tools_def)

lemma exec_read_interview:
  "executeTool env ''read_interview'' input f i =
     (case getInterview env (field input ''documentId'') of
        Inl e \<Rightarrow> Inl e
      | Inr interview \<Rightarrow> Inr (JSON_stringify 2 (interview_json interview)))"
  by (simp add: executeTool_def)

lemma exec_create_draft:
  "executeTool env ''create_draft'' input f i = fst (create_draft_tool env input)"
  by (simp add: executeTool_def)

lemma create_draft_restrict:
  "create_draft_tool env (input |` set (declared_fields ''create_draft'')) = create_draft_tool env input"
  by (simp add: declared_simps create_draft_tool_def create_draft_article_def field_restrict
        split: sum.splits)

lemma ignored_1: "executeTool env ''list_interviews'' (input |` S) f i = executeTool env ''list_interviews'' input f i"
  by (simp add: executeTool_def)
lemma ignored_2: "executeTool env ''read_interview'' (input |` set (declared_fields ''read_interview'')) f i = executeTool env ''read_interview'' input f i"
  by (simp add: exec_read_interview declared_simps field_restrict)
lemma ignored_3: "executeTool env ''list_articles'' (input |` set (declared_fields ''list_articles'')) f i = executeTool env ''list_articles'' input f i"
  by (simp add: executeTool_def declared_simps field_restrict Let_def split: sum.splits)
lemma ignored_4: "executeTool env ''search_articles'' (input |` set (declared_fields ''search_articles'')) f i = executeTool env ''search_articles'' input f i"
  by (simp add: executeTool_def declared_simps field_restrict Let_def split: sum.splits)
lemma ignored_5: "executeTool env ''check_duplicate'' (input |` set (declared_fields ''check_duplicate'')) f i = executeTool env ''check_duplicate'' input f i"
  by (simp add: executeTool_def declared_simps field_restrict Let_def split: sum.splits)
lemma ignored_6: "executeTool env ''create_draft'' (input |` set (declared_fields ''create_draft'')) f i = executeTool env ''create_draft'' input f i"
  by (simp add: exec_create_draft create_draft_restrict)
lemma ignored_7: "executeTool env ''web_search'' (input |` set (declared_fields ''web_search'')) f i = executeTool env ''web_search'' input f i"
  by (simp add: executeTool_def declared_simps field_restrict Let_def split: sum.splits)
lemma ignored_8: "executeTool env ''research_topic'' (input |` set (declared_fields ''research_topic'')) f i = executeTool env ''research_topic'' input f i"
  by (simp add: executeTool_def declared_simps field_restrict Let_def split: sum.splits)
lemma ignored_9: "executeTool env ''list_ideas'' (input |` S) f i = executeTool env ''list_ideas'' input f i"
  by (simp add: executeTool_def)
lemma ignored_10: "executeTool env ''read_idea'' (input |` set (declared_fields ''read_idea'')) f i = executeTool env ''read_idea'' input f i"
  by (simp add: executeTool_def declared_simps field_restrict Let_def split: sum.splits)

lemma ignored_unknown:
  "name \<notin> set (map ts_name tools) \<Longrightarrow> executeTool env name (input |` S) f i = executeTool env name input f i"
  by (simp add: tools_def executeTool_def)

lemma known_names:
  "name \<in> set (map ts_name tools) \<longleftrightarrow>
     name = ''list_interviews'' \<or> name = ''read_interview'' \<or> name = ''list_articles''
     \<or> name = ''search_articles'' \<or> name = ''check_duplicate'' \<or> name = ''create_draft''
     \<or> name = ''web_search'' \<or> name = ''research_topic'' \<or> name = ''list_ideas''
     \<or> name = ''read_idea''"
  unfolding tools_def by simp

lemma undeclared_fields_ignored:
  "executeTool env name (input |` set (declared_fields name)) f i = executeTool env name input f i"
proof (cases "name \<in> set (map ts_name tools)")
  case False
  then show ?thesis by (rule ignored_unknown)
next
  case True
  then show ?thesis
    unfolding known_names
    by (elim disjE)
       (simp_all only: ignored_1 ignored_2 ignored_3 ignored_4 ignored_5 ignored_6
          ignored_7 ignored_8 ignored_9 ignored_10)
qed

lemma string_method_undefined: "\<exists>e. string_method expr meth JUndefined = Inl e"
  by (simp add: string_method_def)

lemma missing_field: "input k = None \<Longrightarrow> field input k = JUndefined"
  by (simp add: field_def)

lemma create_draft_sent_html:
  "pd \<in> set (snd (create_draft_tool env input)) \<Longrightarrow> pd_html pd = field input ''html''"
  by (auto simp: create_draft_tool_def create_draft_article_def createDraftArticle_def postData_def
        split: sum.splits option.splits prod.splits)

text \<open>
  C8 (as amended). The executor does not check the input against the schema of the tool.
  Fields that the schema does not declare are ignored. A required field that is missing
  is read as \<open>undefined\<close>: \<open>read_interview\<close>, \<open>read_idea\<close>, \<open>web_search\<close> and
  \<open>research_topic\<close> call their collaborator with it and return what the collaborator
  then does; \<open>create_draft\<close> without \<open>html\<close> submits a payload whose \<open>html\<close> is
  \<open>undefined\<close>; only where the handler itself calls a string method on the missing value
  (\<open>title\<close> of \<open>create_draft\<close> and of \<open>check_duplicate\<close>, \<open>query\<close> of
  \<open>search_articles\<close>) does it throw, which gives an error result.
\<close>

theorem executor_does_not_validate:
  "executeTool env name (input |` set (declared_fields name)) f i = executeTool env name input f i
   \<and> (input ''documentId'' = None \<longrightarrow>
        executeTool env ''read_interview'' input f i
          = (case getInterview env JUndefined of
               Inl e \<Rightarrow> Inl e
             | Inr interview \<Rightarrow> Inr (JSON_stringify 2 (interview_json interview)))
        \<and> executeTool env ''read_idea'' input f i
          = (case getIdea env JUndefined of
               Inl e \<Rightarrow> Inl e
             | Inr idea \<Rightarrow> Inr (JSON_stringify 2 (idea_json idea))))
   \<and> (input ''query'' = None \<longrightarrow>
        executeTool env ''web_search'' input f i
          = (case searchWeb env JUndefined (or_default (field input ''maxResults'') 5) of
               Inl e \<Rightarrow> Inl e
             | Inr results \<Rightarrow> Inr (JSON_stringify 2 (JArr results)))
        \<and> (\<exists>e. executeTool env ''search_articles'' input f i = Inl e))
   \<and> (input ''topic'' = None \<longrightarrow>
        executeTool env ''research_topic'' input f i = researchTopic env JUndefined)
   \<and> (input ''title'' = None \<longrightarrow>
        (\<exists>e. executeTool env ''create_draft'' input f i = Inl e)
        \<and> (\<exists>e. executeTool env ''check_duplicate'' input f i = Inl e))
   \<and> (input ''html'' = None \<longrightarrow>
        (\<forall>pd \<in> set (snd (create_draft_tool env input)). pd_html pd = JUndefined))"
proof (intro conjI impI)
  show "executeTool env name (input |` set (declared_fields name)) f i = executeTool env name input f i"
    by (rule undeclared_fields_ignored)
next
  assume "input ''documentId'' = None"
  then show "executeTool env ''read_interview'' input f i
      = (case getInterview env JUndefined of
           Inl e \<Rightarrow> Inl e
         | Inr interview \<Rightarrow> Inr (JSON_stringify 2 (interview_json interview)))"
    by (simp add: exec_read_interview missing_field)
next
  assume "input ''documentId'' = None"
  then show "executeTool env ''read_idea'' input f i
      = (case getIdea env JUndefined of
           Inl e \<Rightarrow> Inl e
         | Inr idea \<Rightarrow> Inr (JSON_stringify 2 (idea_json idea)))"
    by (simp add: executeTool_def missing_field)
next
  assume "input ''query'' = None"
  then show "executeTool env ''web_search'' input f i
      = (case searchWeb env JUndefined (or_default (field input ''maxResults'') 5) of
           Inl e \<Rightarrow> Inl e
         | Inr results \<Rightarrow> Inr (JSON_stringify 2 (JArr results)))"
    by (simp add: executeTool_def missing_field)
next
  assume "input ''query'' = None"
  then show "\<exists>e. executeTool env ''search_articles'' input f i = Inl e"
    by (simp add: executeTool_def missing_field searchExistingArticles_def string_method_def
          split: sum.splits)
next
  assume "input ''topic'' = None"
  then show "executeTool env ''research_topic'' input f i = researchTopic env JUndefined"
    by (simp add: executeTool_def missing_field)
next
  assume "input ''title'' = None"
  then show "\<exists>e. executeTool env ''create_draft'' input f i = Inl e"
    by (simp add: exec_create_draft create_draft_tool_def create_draft_article_def missing_field
          string_method_def)
next
  assume "input ''title'' = None"
  then show "\<exists>e. executeTool env ''check_duplicate'' input f i = Inl e"
    by (simp add: executeTool_def missing_field checkArticleExists_def string_method_def
          split: sum.splits)
next
  assume "input ''html'' = None"
  then show "\<forall>pd \<in> set (snd (create_draft_tool env input)). pd_html pd = JUndefined"
    using create_draft_sent_html [of _ env input] by (simp add: missing_field)
qed

theorem executor_does_not_validate_witness:
  "input_no_html ''html'' = None
   \<and> snd (create_draft_tool env_ghost input_no_html) \<noteq> []
   \<and> list_all (\<lambda>pd. pd_html pd = JUndefined) (snd (create_draft_tool env_ghost input_no_html))
   \<and> Map.empty ''documentId'' = (None :: jsval option)
   \<and> executeTool env_ghost ''read_interview'' Map.empty ''folder'' None
       = (case getInterview env_ghost JUndefined of
            Inl e \<Rightarrow> Inl e
          | Inr interview \<Rightarrow> Inr (JSON_stringify 2 (interview_json interview)))
   \<and> Map.empty ''query'' = (None :: jsval option)
   \<and> (\<exists>e. executeTool env_ghost ''search_articles'' Map.empty ''folder'' None = Inl e)
   \<and> Map.empty ''topic'' = (None :: jsval option)
   \<and> executeTool env_ghost ''research_topic'' Map.empty ''folder'' None
       = researchTopic env_ghost JUndefined
   \<and> Map.empty ''title'' = (None :: jsval option)
   \<and> (\<exists>e. executeTool env_ghost ''create_draft'' Map.empty ''folder'' None = Inl e)"
proof -
  have a: "input_no_html ''html'' = None"
    by (simp add: input_no_html_def)
  have b: "snd (create_draft_tool env_ghost input_no_html) \<noteq> []"
    by code_simp
  show ?thesis
    using a b
      executor_does_not_validate [of env_ghost "''create_draft''" input_no_html "''folder''" None]
      executor_does_not_validate [of env_ghost "''create_draft''" Map.empty "''folder''" None]
    by (simp add: list_all_iff)
qed

text \<open>
  The claim as stated fails: \<open>html\<close> is required by the schema of \<open>create_draft\<close>, the
  input has none, and the result is not flagged as an error; the store was handed a
  payload whose \<open>html\<close> is \<open>undefined\<close>.
\<close>

theorem missing_html_not_flagged:
  "''html'' \<in> set (required_fields ''create_draft'')
   \<and> input_no_html ''html'' = None
   \<and> map is_error (tool_block env_ghost ''folder'' None (ToolUseBlock ''t1'' ''create_draft'' input_no_html))
       = [False]
   \<and> map pd_html (snd (create_draft_tool env_ghost input_no_html)) = [JUndefined]"
  by code_simp


section \<open>The publishing store\<close>

lemma postData_status: "postData toNum article = Inr pd \<Longrightarrow> pd_status pd = ''draft''"
  by (auto simp: postData_def split: sum.splits)

lemma createDraftArticle_sent:
  "pd \<in> set (snd (createDraftArticle toNum client article)) \<Longrightarrow> postData toNum article = Inr pd"
  by (auto simp: createDraftArticle_def split: option.splits sum.splits)

lemma create_draft_tool_sent:
  assumes "pd \<in> set (snd (create_draft_tool env input))"
  shows "\<exists>article. postData (toNumber env) article = Inr pd"
proof (cases "create_draft_article input")
  case (Inl e)
  with assms show ?thesis by (simp add: create_draft_tool_def)
next
  case (Inr article)
  obtain res posted where c: "createDraftArticle (toNumber env) (ghostClient env) article = (res, posted)"
    by (cases "createDraftArticle (toNumber env) (ghostClient env) article")
  with Inr assms have "pd \<in> set posted"
    by (cases res) (simp_all add: create_draft_tool_def)
  with c have "pd \<in> set (snd (createDraftArticle (toNumber env) (ghostClient env) article))"
    by simp
  then show ?thesis
    using createDraftArticle_sent by blast
qed

text \<open>
  C10. Whatever status the article carries, every payload that \<open>createDraftArticle\<close>
  hands to the store has the status \<open>draft\<close>; so has every payload of the tool
  \<open>create_draft\<close>, which reaches the store through \<open>createDraftArticle\<close> only.
\<close>

theorem drafts_only:
  "(\<forall>pd \<in> set (snd (createDraftArticle toNum client article)). pd_status pd = ''draft'')
   \<and> (\<forall>pd \<in> set (snd (create_draft_tool env input)). pd_status pd = ''draft'')"
  using postData_status createDraftArticle_sent create_draft_tool_sent by blast

theorem drafts_only_witness:
  "a_status article_published = Published
   \<and> snd (createDraftArticle (\<lambda>v. 0) (Some ghost_demo) article_published) \<noteq> []
   \<and> list_all (\<lambda>pd. pd_status pd = ''draft'')
       (snd (createDraftArticle (\<lambda>v. 0) (Some ghost_demo) article_published))
   \<and> snd (create_draft_tool env_ghost input_no_html) \<noteq> []
   \<and> list_all (\<lambda>pd. pd_status pd = ''draft'') (snd (create_draft_tool env_ghost input_no_html))"
proof -
  have a: "a_status article_published = Published"
    by (simp add: article_published_def)
  have b: "snd (createDraftArticle (\<lambda>v. 0) (Some ghost_demo) article_published) \<noteq> []"
    by code_simp
  have c: "snd (create_draft_tool env_ghost input_no_html) \<noteq> []"
    by code_simp
  show ?thesis
    using a b c drafts_only [of "\<lambda>v. 0" "Some ghost_demo" article_published env_ghost input_no_html]
    by (simp add: list_all_iff)
qed

text \<open>
  C5. \<open>checkArticleExists\<close> reports an exact match exactly when some existing article has
  the slug of the candidate or, lower-cased, its title; with the two examples of the
  specification.
\<close>

theorem exact_match_iff:
  "(getExistingArticles client = Inr articles \<longrightarrow>
      (\<exists>r. checkArticleExists client (JStr title) = Inr r
         \<and> (exactMatch r \<longleftrightarrow>
              (\<exists>a \<in> set articles. ea_slug a = generateSlug title
                                  \<or> toLowerCase (ea_title a) = toLowerCase title))))
   \<and> (a \<in> set articles \<and> ea_slug a = ''sarah-chen-floral-journey'' \<longrightarrow>
        exactMatch (checkArticles articles ''Sarah Chen Floral Journey''))
   \<and> (ea_title b = ''Completely Different Title'' \<and> ea_slug b \<noteq> ''new-topic'' \<longrightarrow>
        exactMatch (checkArticles [b] ''New Topic'') = False
        \<and> similarArticles (checkArticles [b] ''New Topic'') = [])"
proof (intro conjI impI)
  assume "getExistingArticles client = Inr articles"
  then show "\<exists>r. checkArticleExists client (JStr title) = Inr r
         \<and> (exactMatch r \<longleftrightarrow>
              (\<exists>a \<in> set articles. ea_slug a = generateSlug title
                                  \<or> toLowerCase (ea_title a) = toLowerCase title))"
    by (simp add: checkArticleExists_def string_method_def checkArticles_def Let_def list_ex_iff)
next
  have slug: "generateSlug ''Sarah Chen Floral Journey'' = ''sarah-chen-floral-journey''"
    by code_simp
  assume "a \<in> set articles \<and> ea_slug a = ''sarah-chen-floral-journey''"
  then show "exactMatch (checkArticles articles ''Sarah Chen Floral Journey'')"
    unfolding checkArticles_def Let_def slug by (auto simp: list_ex_iff)
next
  have slug: "generateSlug ''New Topic'' = ''new-topic''"
    by code_simp
  have low: "toLowerCase ''New Topic'' = ''new topic''"
    "toLowerCase ''Completely Different Title'' = ''completely different title''"
    by code_simp+
  have inc: "\<not> str_includes ''completely different title'' ''new topic''"
    "\<not> str_includes ''new topic'' ''completely different title''"
    by code_simp+
  assume b: "ea_title b = ''Completely Different Title'' \<and> ea_slug b \<noteq> ''new-topic''"
  then show "exactMatch (checkArticles [b] ''New Topic'') = False"
    unfolding checkArticles_def Let_def slug by (simp add: low)
  from b show "similarArticles (checkArticles [b] ''New Topic'') = []"
    unfolding checkArticles_def Let_def slug by (simp add: low inc)
qed

theorem exact_match_iff_witness:
  "getExistingArticles (Some ghost_demo) = Inr (case browse_all ghost_demo of Inr xs \<Rightarrow> xs | Inl e \<Rightarrow> [])
   \<and> (\<exists>r. checkArticleExists (Some ghost_demo) (JStr ''New Topic'') = Inr r \<and> \<not> exactMatch r)
   \<and> exactMatch (checkArticles
        [\<lparr>ea_id = ''7'', ea_title = ''Sarah Chen'', ea_slug = ''sarah-chen-floral-journey'',
          ea_publishedAt = JNull\<rparr>] ''Sarah Chen Floral Journey'')
   \<and> ea_slug \<lparr>ea_id = ''1'', ea_title = ''Completely Different Title'',
               ea_slug = ''completely-different-title'', ea_publishedAt = JNull\<rparr> \<noteq> ''new-topic''
   \<and> similarArticles (checkArticles
        [\<lparr>ea_id = ''1'', ea_title = ''Completely Different Title'',
          ea_slug = ''completely-different-title'', ea_publishedAt = JNull\<rparr>] ''New Topic'') = []"
proof -
  let ?arts = "case browse_all ghost_demo of Inr xs \<Rightarrow> xs | Inl e \<Rightarrow> []"
  let ?a = "\<lparr>ea_id = ''7'', ea_title = ''Sarah Chen'', ea_slug = ''sarah-chen-floral-journey'',
          ea_publishedAt = JNull\<rparr>"
  let ?b = "\<lparr>ea_id = ''1'', ea_title = ''Completely Different Title'',
          ea_slug = ''completely-different-title'', ea_publishedAt = JNull\<rparr>"
  have g: "getExistingArticles (Some ghost_demo) = Inr ?arts"
    by (simp add: getExistingArticles_def ghost_demo_def)
  have no: "\<not> (\<exists>a \<in> set ?arts. ea_slug a = generateSlug ''New Topic''
      \<or> toLowerCase (ea_title a) = toLowerCase ''New Topic'')"
    by code_simp
  have mem: "?a \<in> set [?a] \<and> ea_slug ?a = ''sarah-chen-floral-journey''"
    by simp
  have other: "ea_title ?b = ''Completely Different Title'' \<and> ea_slug ?b \<noteq> ''new-topic''"
    by simp
  show ?thesis
    using g no mem other exact_match_iff [of "Some ghost_demo" ?arts "''New Topic''" ?a ?b]
      exact_match_iff [of "Some ghost_demo" "[?a]" "''New Topic''" ?a ?b]
    by auto
qed


section \<open>The scheduling duplicate heuristic\<close>

lemma covered_by_iff:
  "covered_by tlow tkp articles \<longleftrightarrow>
     (\<exists>a \<in> set articles.
        2 \<le> length (matchingPhrases tkp (extractKeyPhrases (toLowerCase (ea_title a))))
        \<or> word_overlap tlow (toLowerCase (ea_title a)))"
  by (induction articles) (auto simp: Let_def)

text \<open>
  C6 (as amended). A topic is flagged as covered exactly when, for some existing title,
  at least two key phrases of the topic match a key phrase of the title (the same
  phrase, or one containing the other), or more than 0.6 of the topic's words longer
  than 4 characters occur among such words of the title. A topic with fewer than two
  matching key phrases is flagged all the same when the word overlap is large enough.
\<close>

theorem topic_covered_iff:
  "isTopicAlreadyCovered topic articles \<longleftrightarrow>
     (\<exists>a \<in> set articles.
        2 \<le> length (matchingPhrases (extractKeyPhrases (toLowerCase topic))
                      (extractKeyPhrases (toLowerCase (ea_title a))))
        \<or> word_overlap (toLowerCase topic) (toLowerCase (ea_title a)))"
  by (simp add: isTopicAlreadyCovered_def Let_def covered_by_iff)

theorem topic_covered_iff_witness:
  "isTopicAlreadyCovered ''Instagram Pricing Guide'' [article_gardens] = False
   \<and> \<not> (\<exists>a \<in> set [article_gardens].
        2 \<le> length (matchingPhrases (extractKeyPhrases (toLowerCase ''Instagram Pricing Guide''))
                      (extractKeyPhrases (toLowerCase (ea_title a))))
        \<or> word_overlap (toLowerCase ''Instagram Pricing Guide'') (toLowerCase (ea_title a)))"
proof -
  have "isTopicAlreadyCovered ''Instagram Pricing Guide'' [article_gardens] = False"
    by code_simp
  then show ?thesis
    using topic_covered_iff [of "''Instagram Pricing Guide''" "[article_gardens]"] by simp
qed

text \<open>
  The claim as stated fails: the topic below has no key phrase at all, so it shares none
  with the existing title, and it is flagged by the word overlap.
\<close>

theorem covered_without_key_phrases:
  "extractKeyPhrases (toLowerCase ''Beautiful Gardens Forever'') = []
   \<and> isTopicAlreadyCovered ''Beautiful Gardens Forever'' [article_gardens]"
  by code_simp

section \<open>The duplicate gate of the generators\<close>

text \<open>
  C4. With one existing article, ``Completely Different Title'', the candidate
  ``New Topic'' has no exact match and no similar article, and each of the three
  generators refuses to go on: the object that the check returns is truthy whatever its
  fields say, so the code after the gate, here one that would create the draft, is not
  reached.
\<close>

theorem generators_refuse_without_match:
  "(case checkArticleExists (Some ghost_demo) (JStr ''New Topic'') of
      Inl e \<Rightarrow> False
    | Inr r \<Rightarrow> \<not> exactMatch r \<and> similarArticles r = [])
   \<and> generateSEOContent (Some ghost_demo) rest_creates ''New Topic''
       = failed (''An article about '' @ [CHR 0x22] @ ''New Topic'' @ [CHR 0x22]
                 @ '' may already exist. Check Ghost for duplicates.'')
   \<and> generateFromInsight (Some ghost_demo) rest_creates ''New Topic''
       = failed ''A similar article may already exist. Check Ghost for duplicates.''
   \<and> generateThemeRoundup (Some ghost_demo) (Inr interviews_demo) (\<lambda>ivs. Inr []) rest_creates
         (Some ''New Topic'')
       = failed (''An article about '' @ [CHR 0x22] @ ''New Topic'' @ [CHR 0x22]
                 @ '' may already exist. Check Ghost for duplicates.'')"
  by code_simp


section \<open>The response parser\<close>

lemma grp_kept:
  "m_atoms ci ml as st = Some st' \<Longrightarrow> grp st \<noteq> None \<Longrightarrow> grp st' \<noteq> None"
  "m_try ci ml as st cands = Some st' \<Longrightarrow> grp st \<noteq> None \<Longrightarrow> grp st' \<noteq> None"
  by (induction ci ml as st and ci ml as st cands arbitrary: st' and st' rule: m_atoms_m_try.induct)
     (auto split: if_splits option.splits)

lemma grp_closed:
  "m_atoms ci ml as st = Some st' \<Longrightarrow> GClose \<in> set as \<Longrightarrow> grp st' \<noteq> None"
  "m_try ci ml as st cands = Some st' \<Longrightarrow> GClose \<in> set as \<Longrightarrow> grp st' \<noteq> None"
proof (induction ci ml as st and ci ml as st cands arbitrary: st' and st' rule: m_atoms_m_try.induct)
  case (4 ci ml as st)
  then show ?case
    using grp_kept(1) [of ci ml as "st\<lparr>grp := Some (gstart st, pos st)\<rparr>" st'] by simp
qed (auto split: if_splits option.splits)

lemma m_alts_grp:
  "m_alts ci ml rx st = Some st' \<Longrightarrow> list_all (\<lambda>alt. GClose \<in> set alt) rx \<Longrightarrow> grp st' \<noteq> None"
  by (induction rx) (auto split: option.splits dest: grp_closed(1))

lemma search_grp:
  "search ci ml rx p pv r = Some found \<Longrightarrow> list_all (\<lambda>alt. GClose \<in> set alt) rx \<Longrightarrow>
   grp (snd found) \<noteq> None"
  by (induction r arbitrary: p pv) (auto split: option.splits dest: m_alts_grp)

lemma pmatch_group:
  "pmatch p txt = Some m \<Longrightarrow> has_group p \<Longrightarrow> \<exists>g. group1 m = Inr g \<and> snd m = Some g"
  by (cases p)
     (auto simp: pmatch_def has_group_def re_match_def group1_def
        split: option.splits dest: search_grp)


lemma has_group_patterns:
  "has_group re_html_fence" "has_group re_bold" "has_group (re_heading h)" "has_group re_tags"
  "list_all has_group titlePatterns" "list_all has_group metaPatterns"
  "list_all has_group excerptPatterns"
  by (simp_all add: has_group_def re_html_fence_def re_bold_def re_heading_def re_tags_def
        titlePatterns_def metaPatterns_def excerptPatterns_def label_tail_def)

lemma extract_html_total: "\<exists>h. extract_html txt = Inr h"
  by (auto simp: extract_html_def then_do_def split: option.splits
        dest!: pmatch_group [OF _ has_group_patterns(1)])

lemma title_labels_total:
  "list_all has_group ps \<Longrightarrow> \<exists>t. title_labels ps txt = Inr t"
  by (induction ps) (auto simp: then_do_def split: option.splits dest!: pmatch_group)

lemma title_labels_none:
  "\<forall>p \<in> set ps. pmatch p txt = None \<Longrightarrow> title_labels ps txt = Inr []"
  by (induction ps) auto

lemma title_heading_eq:
  "title_heading h html title = Inr (if title \<noteq> [] then title else heading_title h html)"
  by (auto simp: title_heading_def heading_title_def then_do_def split: option.splits
        dest!: pmatch_group [OF _ has_group_patterns(3)])

lemma title_bold_eq:
  "title_bold txt title = Inr (if title \<noteq> [] then title else bold_title txt)"
  by (auto simp: title_bold_def bold_title_def then_do_def split: option.splits
        dest!: pmatch_group [OF _ has_group_patterns(2)])

lemma extract_title_eq:
  "title_labels titlePatterns txt = Inr t \<Longrightarrow>
   extract_title txt html =
     Inr (clean_title
       (if t \<noteq> [] then t
        else if heading_title ''h1'' html \<noteq> [] then heading_title ''h1'' html
        else if bold_title txt \<noteq> [] then bold_title txt
        else heading_title ''h2'' html))"
  by (simp add: extract_title_def then_do_def title_heading_eq title_bold_eq)

lemma extract_tags_total: "\<exists>ts. extract_tags txt = Inr ts"
  by (auto simp: extract_tags_def then_do_def split: option.splits
        dest!: pmatch_group [OF _ has_group_patterns(4)])

lemma first_label_total:
  "list_all has_group ps \<Longrightarrow> \<exists>t. first_label post ps txt = Inr t"
  by (induction ps) (auto simp: then_do_def split: option.splits dest!: pmatch_group)

lemma first_label_none:
  "\<forall>p \<in> set ps. pmatch p txt = None \<Longrightarrow> first_label post ps txt = Inr []"
  by (induction ps) auto

lemma clean_empty: "clean_html [] = []" "clean_title [] = []"
  by code_simp+

lemma heading_title_empty: "pmatch (re_heading h) html = None \<Longrightarrow> heading_title h html = []"
  by (simp add: heading_title_def)

lemma bold_title_empty: "pmatch re_bold txt = None \<Longrightarrow> bold_title txt = []"
  by (simp add: bold_title_def)



text \<open>
  C7. The parser returns a complete structure for every text and never throws. Its
  string fields are strings, and a field that no pattern matched is the empty string:
  the HTML when neither HTML pattern matches, the title and the meta title when no
  title pattern matches the text or the extracted HTML, the meta description and the
  excerpt when none of their patterns match; the tags are then the empty list.
\<close>

theorem parser_always_returns:
  "\<exists>r html0 h e mt md.
     parseArticleResponse txt = Inr r \<and> extract_html txt = Inr html0
     \<and> a_html (r_article r) = JStr h \<and> a_excerpt (r_article r) = JStr e
     \<and> a_metaTitle (r_article r) = JStr mt \<and> a_metaDescription (r_article r) = JStr md
     \<and> a_tags (r_article r) = JArr (map JStr (r_suggestedTags r))
     \<and> a_slug (r_article r) = [] \<and> a_status (r_article r) = Draft
     \<and> r_excerpt r = e \<and> r_metaTitle r = mt \<and> r_metaDescription r = md
     \<and> (pmatch re_html_fence txt = None \<and> pmatch re_html_direct txt = None \<longrightarrow> h = [])
     \<and> ((\<forall>p \<in> set titlePatterns. pmatch p txt = None)
          \<and> pmatch (re_heading ''h1'') html0 = None \<and> pmatch re_bold txt = None
          \<and> pmatch (re_heading ''h2'') html0 = None
          \<longrightarrow> a_title (r_article r) = [] \<and> mt = [])
     \<and> (pmatch re_tags txt = None \<longrightarrow> r_suggestedTags r = [])
     \<and> ((\<forall>p \<in> set metaPatterns. pmatch p txt = None) \<longrightarrow> md = [])
     \<and> ((\<forall>p \<in> set excerptPatterns. pmatch p txt = None) \<longrightarrow> e = [])"
proof -
  obtain html0 where h0: "extract_html txt = Inr html0"
    using extract_html_total by blast
  obtain t where t: "title_labels titlePatterns txt = Inr t"
    using title_labels_total [OF has_group_patterns(5)] by blast
  obtain tags where tags: "extract_tags txt = Inr tags"
    using extract_tags_total by blast
  obtain md where md: "first_label trim metaPatterns txt = Inr md"
    using first_label_total [OF has_group_patterns(6)] by blast
  obtain e where e: "first_label (\<lambda>g. trim (strip_stars (trim g))) excerptPatterns txt = Inr e"
    using first_label_total [OF has_group_patterns(7)] by blast
  let ?title = "clean_title
       (if t \<noteq> [] then t
        else if heading_title ''h1'' html0 \<noteq> [] then heading_title ''h1'' html0
        else if bold_title txt \<noteq> [] then bold_title txt
        else heading_title ''h2'' html0)"
  let ?mt = "if ?title \<noteq> [] then ?title @ '' | Style Me Pretty'' else []"
  let ?r = "\<lparr>r_article =
                \<lparr>a_title = ?title, a_slug = [], a_html = JStr (clean_html html0),
                 a_excerpt = JStr e, a_tags = JArr (map JStr tags), a_metaTitle = JStr ?mt,
                 a_metaDescription = JStr md, a_featureImage = JUndefined, a_status = Draft\<rparr>,
              r_suggestedTags = tags, r_metaTitle = ?mt, r_metaDescription = md,
              r_excerpt = e\<rparr>"
  have parse: "parseArticleResponse txt = Inr ?r"
    by (simp add: parseArticleResponse_def then_do_def h0 extract_title_eq [OF t] tags md e Let_def)
  have html_empty: "pmatch re_html_fence txt = None \<and> pmatch re_html_direct txt = None
      \<longrightarrow> clean_html html0 = []"
    using h0 by (auto simp: extract_html_def clean_empty)
  have title_empty: "(\<forall>p \<in> set titlePatterns. pmatch p txt = None)
      \<and> pmatch (re_heading ''h1'') html0 = None \<and> pmatch re_bold txt = None
      \<and> pmatch (re_heading ''h2'') html0 = None \<longrightarrow> ?title = [] \<and> ?mt = []"
  proof (intro impI, elim conjE)
    assume a: "\<forall>p \<in> set titlePatterns. pmatch p txt = None"
      and b: "pmatch (re_heading ''h1'') html0 = None"
      and c: "pmatch re_bold txt = None"
      and d: "pmatch (re_heading ''h2'') html0 = None"
    have "t = []"
      using t title_labels_none [OF a] by simp
    then show "?title = [] \<and> ?mt = []"
      by (simp add: heading_title_empty [OF b] heading_title_empty [OF d]
            bold_title_empty [OF c] clean_empty)
  qed
  have tags_empty: "pmatch re_tags txt = None \<longrightarrow> tags = []"
    using tags by (auto simp: extract_tags_def)
  have md_empty: "(\<forall>p \<in> set metaPatterns. pmatch p txt = None) \<longrightarrow> md = []"
    using md by (auto simp: first_label_none)
  have e_empty: "(\<forall>p \<in> set excerptPatterns. pmatch p txt = None) \<longrightarrow> e = []"
    using e by (auto simp: first_label_none)
  show ?thesis
    apply (rule exI [of _ ?r], rule exI [of _ html0], rule exI [of _ "clean_html html0"])
    apply (rule exI [of _ e], rule exI [of _ ?mt], rule exI [of _ md])
    using parse h0 html_empty title_empty tags_empty md_empty e_empty
    apply simp
    done
qed


theorem parser_always_returns_witness:
  "pmatch re_html_fence response_plain = None \<and> pmatch re_html_direct response_plain = None
   \<and> list_all (\<lambda>p. pmatch p response_plain = None) titlePatterns
   \<and> pmatch (re_heading ''h1'') [] = None \<and> pmatch (re_heading ''h2'') [] = None
   \<and> pmatch re_bold response_plain = None \<and> pmatch re_tags response_plain = None
   \<and> list_all (\<lambda>p. pmatch p response_plain = None) metaPatterns
   \<and> list_all (\<lambda>p. pmatch p response_plain = None) excerptPatterns
   \<and> (\<exists>r. parseArticleResponse response_plain = Inr r
         \<and> a_title (r_article r) = [] \<and> a_metaTitle (r_article r) = JStr []
         \<and> a_html (r_article r) = JStr [] \<and> a_excerpt (r_article r) = JStr []
         \<and> a_metaDescription (r_article r) = JStr [] \<and> r_suggestedTags r = [])"
proof -
  have html: "pmatch re_html_fence response_plain = None \<and> pmatch re_html_direct response_plain = None"
    by code_simp
  have html0: "extract_html response_plain = Inr []"
    by code_simp
  have title: "list_all (\<lambda>p. pmatch p response_plain = None) titlePatterns"
    by code_simp
  have heads: "pmatch (re_heading ''h1'') [] = None \<and> pmatch (re_heading ''h2'') [] = None"
    by code_simp
  have bold: "pmatch re_bold response_plain = None \<and> pmatch re_tags response_plain = None"
    by code_simp
  have meta: "list_all (\<lambda>p. pmatch p response_plain = None) metaPatterns"
    by code_simp
  have exc: "list_all (\<lambda>p. pmatch p response_plain = None) excerptPatterns"
    by code_simp
  show ?thesis
    using html html0 title heads bold meta exc parser_always_returns [of response_plain]
    by (auto simp: list_all_iff)
qed

text \<open>
  C9 (as amended). When none of the label and heading patterns matches the response,
  the title is, after the final clean-up, the first of these that is not empty: the
  text of the first level-1 heading of the extracted HTML, then the first bold phrase
  of the response that starts with a capital letter followed by 10 to 80 characters
  other than an asterisk or a line feed, then the text of the first level-2 heading of
  the extracted HTML. A later fallback is used only when those before it gave nothing.
\<close>

theorem title_fallback_order:
  assumes "\<forall>p \<in> set titlePatterns. pmatch p txt = None"
    and "extract_html txt = Inr html"
  shows "\<exists>r. parseArticleResponse txt = Inr r
           \<and> a_title (r_article r)
               = clean_title
                   (if heading_title ''h1'' html \<noteq> [] then heading_title ''h1'' html
                    else if bold_title txt \<noteq> [] then bold_title txt
                    else heading_title ''h2'' html)"
proof -
  have t: "title_labels titlePatterns txt = Inr []"
    using assms(1) by (rule title_labels_none)
  obtain tags where tags: "extract_tags txt = Inr tags"
    using extract_tags_total by blast
  obtain md where md: "first_label trim metaPatterns txt = Inr md"
    using first_label_total [OF has_group_patterns(6)] by blast
  obtain e where e: "first_label (\<lambda>g. trim (strip_stars (trim g))) excerptPatterns txt = Inr e"
    using first_label_total [OF has_group_patterns(7)] by blast
  show ?thesis
    by (simp add: parseArticleResponse_def then_do_def assms(2) extract_title_eq [OF t]
          tags md e Let_def)
qed

theorem title_fallback_order_witness:
  "list_all (\<lambda>p. pmatch p response_h1_bold = None) titlePatterns
   \<and> extract_html response_h1_bold = Inr ''<h1>Top</h1>''
   \<and> heading_title ''h1'' ''<h1>Top</h1>'' = ''Top''
   \<and> (\<exists>r. parseArticleResponse response_h1_bold = Inr r \<and> a_title (r_article r) = clean_title ''Top'')"
proof -
  have a: "list_all (\<lambda>p. pmatch p response_h1_bold = None) titlePatterns"
    by code_simp
  have b: "extract_html response_h1_bold = Inr ''<h1>Top</h1>''"
    by code_simp
  have c: "heading_title ''h1'' ''<h1>Top</h1>'' = ''Top''"
    by code_simp
  show ?thesis
    using a b c title_fallback_order [of response_h1_bold "''<h1>Top</h1>''"]
    by (auto simp: list_all_iff)
qed

text \<open>
  The claim as stated fails: in this response no label matches, the extracted HTML has
  no level-1 heading but a level-2 heading, and the title is the bold phrase, not the
  heading. A bold phrase of ten characters is not taken.
\<close>

theorem bold_before_second_heading:
  "list_all (\<lambda>p. pmatch p response_bold_h2 = None) titlePatterns
   \<and> extract_html response_bold_h2 = Inr ''<h2>T</h2>''
   \<and> heading_title ''h1'' ''<h2>T</h2>'' = []
   \<and> heading_title ''h2'' ''<h2>T</h2>'' = ''T''
   \<and> (case parseArticleResponse response_bold_h2 of
          Inl e \<Rightarrow> False
        | Inr r \<Rightarrow> a_title (r_article r) = ''Abcdefghijk'')
   \<and> bold_title ''**Abcdefghij**'' = []"
  by code_simp


end
